theory Spec2Isabelle
  imports Main
begin

section \<open>Python values\<close>

text \<open>
  A webhook body is whatever \<^verbatim>\<open>json.loads\<close> returns. An object is the association
  list of its entries, looked up from the front (a parsed object never repeats a key).
  Numbers are the integers: a number with a fraction is outside this development.
\<close>

datatype json =
    JNull
  | JBool bool
  | JInt int
  | JStr string
  | JArr "json list"
  | JObj "(string \<times> json) list"

text \<open>
  The exceptions the modelled code can meet. \<open>DBAPIError\<close> is the driver refusing a
  bind value whose type does not fit the column, \<open>IntegrityError\<close> a violated
  constraint of the schema, \<open>WebSocketError\<close> a failed \<^verbatim>\<open>send_text\<close>,
  \<open>ChatError\<close> any exception of the reply generator; \<^verbatim>\<open>json.loads\<close>
  raises a \<open>ValueError\<close>.
\<close>

datatype py_error =
    AttributeError
  | TypeError
  | KeyError
  | ValueError
  | IntegrityError
  | DBAPIError
  | WebSocketError
  | ChatError

definition py_bind :: "'e + 'a \<Rightarrow> ('a \<Rightarrow> 'e + 'b) \<Rightarrow> 'e + 'b" where
  "py_bind r f = (case r of Inl e \<Rightarrow> Inl e | Inr v \<Rightarrow> f v)"

text \<open>Truth value testing, as \<^verbatim>\<open>if x:\<close>, \<^verbatim>\<open>not x\<close> and \<^verbatim>\<open>x or y\<close> do it.\<close>

fun truthy :: "json \<Rightarrow> bool" where
  "truthy JNull = False"
| "truthy (JBool b) = b"
| "truthy (JInt i) = (i \<noteq> 0)"
| "truthy (JStr s) = (s \<noteq> [])"
| "truthy (JArr xs) = (xs \<noteq> [])"
| "truthy (JObj kvs) = (kvs \<noteq> [])"

definition py_or :: "json \<Rightarrow> json \<Rightarrow> json" where
  "py_or a b = (if truthy a then a else b)"

text \<open>\<^verbatim>\<open>d.get(k, dflt)\<close> and \<^verbatim>\<open>k in d\<close> on a dict.\<close>

definition dict_get :: "(string \<times> json) list \<Rightarrow> string \<Rightarrow> json \<Rightarrow> json" where
  "dict_get d k dflt = (case map_of d k of None \<Rightarrow> dflt | Some v \<Rightarrow> v)"

definition has_key :: "(string \<times> json) list \<Rightarrow> string \<Rightarrow> bool" where
  "has_key d k = (map_of d k \<noteq> None)"

text \<open>The same operations on a value that need not be a dict.\<close>

fun py_get :: "json \<Rightarrow> string \<Rightarrow> json \<Rightarrow> py_error + json" where
  "py_get (JObj d) k dflt = Inr (dict_get d k dflt)"
| "py_get _ k dflt = Inl AttributeError"

fun starts_with :: "string \<Rightarrow> string \<Rightarrow> bool" where
  "starts_with s [] = True"
| "starts_with [] (c # cs) = False"
| "starts_with (x # xs) (c # cs) = (x = c \<and> starts_with xs cs)"

fun str_contains :: "string \<Rightarrow> string \<Rightarrow> bool" where
  "str_contains [] sub = (sub = [])"
| "str_contains (x # xs) sub = (starts_with (x # xs) sub \<or> str_contains xs sub)"

fun py_in :: "string \<Rightarrow> json \<Rightarrow> py_error + bool" where
  "py_in k (JObj d) = Inr (has_key d k)"
| "py_in k (JStr s) = Inr (str_contains s k)"
| "py_in k (JArr xs) = Inr (JStr k \<in> set xs)"
| "py_in k _ = Inl TypeError"

fun py_getitem :: "json \<Rightarrow> string \<Rightarrow> py_error + json" where
  "py_getitem (JObj d) k = (case map_of d k of None \<Rightarrow> Inl KeyError | Some v \<Rightarrow> Inr v)"
| "py_getitem _ k = Inl TypeError"

subsection \<open>Text of a value\<close>

text \<open>
  \<^verbatim>\<open>str(x)\<close>, which an f-string uses too. A string is itself; inside a list or a dict
  a string is shown by \<^verbatim>\<open>repr\<close>. The escapes written out are the ones of printable ASCII
  text (quote, backslash, newline, carriage return, tab).
\<close>

fun show_nat :: "nat \<Rightarrow> string" where
  "show_nat n =
     (if n < 10 then [char_of (48 + n)]
      else show_nat (n div 10) @ [char_of (48 + n mod 10)])"

declare show_nat.simps [simp del]

definition show_int :: "int \<Rightarrow> string" where
  "show_int i = (if i < 0 then CHR ''-'' # show_nat (nat (- i)) else show_nat (nat i))"

definition escape_char :: "char \<Rightarrow> char \<Rightarrow> string" where
  "escape_char q c =
     (if c = q \<or> c = CHR 0x5C then [CHR 0x5C, c]
      else if c = CHR 0x0A then [CHR 0x5C, CHR ''n'']
      else if c = CHR 0x0D then [CHR 0x5C, CHR ''r'']
      else if c = CHR 0x09 then [CHR 0x5C, CHR ''t'']
      else [c])"

definition repr_str :: "string \<Rightarrow> string" where
  "repr_str s =
     (let q = (if CHR 0x27 \<in> set s \<and> CHR 0x22 \<notin> set s then CHR 0x22 else CHR 0x27)
      in q # concat (map (escape_char q) s) @ [q])"

fun join :: "string \<Rightarrow> string list \<Rightarrow> string" where
  "join sep [] = []"
| "join sep [x] = x"
| "join sep (x # y # ys) = x @ sep @ join sep (y # ys)"

fun py_repr :: "json \<Rightarrow> string" where
  "py_repr JNull = ''None''"
| "py_repr (JBool b) = (if b then ''True'' else ''False'')"
| "py_repr (JInt i) = show_int i"
| "py_repr (JStr s) = repr_str s"
| "py_repr (JArr xs) = ''['' @ join '', '' (map py_repr xs) @ '']''"
| "py_repr (JObj kvs) =
     ''{'' @ join '', '' (map (\<lambda>(k, v). repr_str k @ '': '' @ py_repr v) kvs) @ ''}''"

definition py_str :: "json \<Rightarrow> string" where
  "py_str v = (case v of JStr s \<Rightarrow> s | _ \<Rightarrow> py_repr v)"

text \<open>\<^verbatim>\<open>json.dumps(x)\<close> with the default separators.\<close>

definition dumps_str :: "string \<Rightarrow> string" where
  "dumps_str s = CHR 0x22 # concat (map (escape_char (CHR 0x22)) s) @ [CHR 0x22]"

fun json_dumps :: "json \<Rightarrow> string" where
  "json_dumps JNull = ''null''"
| "json_dumps (JBool b) = (if b then ''true'' else ''false'')"
| "json_dumps (JInt i) = show_int i"
| "json_dumps (JStr s) = dumps_str s"
| "json_dumps (JArr xs) = ''['' @ join '', '' (map json_dumps xs) @ '']''"
| "json_dumps (JObj kvs) =
     ''{'' @ join '', '' (map (\<lambda>(k, v). dumps_str k @ '': '' @ json_dumps v) kvs) @ ''}''"

text \<open>\<^verbatim>\<open>s.split("@")[0]\<close>: the text before the first \<^verbatim>\<open>@\<close>, all of it when there is none.\<close>

definition before_at :: "string \<Rightarrow> string" where
  "before_at s = takeWhile (\<lambda>c. c \<noteq> CHR ''@'') s"

section \<open>Provider adapters (services/whatsapp\_service.py)\<close>

datatype provider = ZApiProvider | EvolutionProvider

subsection \<open>ZApiProvider.process\_webhook\<close>

definition zapi_event_type :: "(string \<times> json) list \<Rightarrow> json" where
  "zapi_event_type d =
     py_or (dict_get d ''type'' JNull)
       (py_or (dict_get d ''event'' JNull) (dict_get d ''action'' JNull))"

definition zapi_status_events :: "json list" where
  "zapi_status_events = [JStr ''Disconnected'', JStr ''Connected'', JStr ''MessageStatus'']"

definition zapi_message_events :: "json list" where
  "zapi_message_events =
     [JStr ''ReceivedMessage'', JStr ''SendMessage'', JStr ''ReceivedCallback'',
      JStr ''on-message-received'', JStr ''message-received'']"

definition zapi_is_group :: "(string \<times> json) list \<Rightarrow> bool" where
  "zapi_is_group d =
     (let is_group = dict_get d ''isGroup'' (JBool False);
          phone = dict_get d ''phone'' (JStr [])
      in truthy is_group \<or> (truthy phone \<and> str_contains (py_str phone) ''@g.us''))"

definition zapi_content :: "(string \<times> json) list \<Rightarrow> json" where
  "zapi_content d =
     (let content =
            (case dict_get d ''text'' JNull of
               JObj t \<Rightarrow> dict_get t ''message'' (JStr [])
             | _ \<Rightarrow>
                (case dict_get d ''message'' JNull of
                   JObj m \<Rightarrow> py_or (dict_get m ''text'' (JStr [])) (dict_get m ''message'' (JStr []))
                 | _ \<Rightarrow>
                    py_or (dict_get d ''text'' JNull)
                      (py_or (dict_get d ''message'' JNull) (JStr []))));
          content = (case content of JObj c \<Rightarrow> JStr (json_dumps (JObj c)) | _ \<Rightarrow> content);
          content = JStr (py_str content)
      in if \<not> truthy content then py_or (dict_get d ''caption'' JNull) (JStr []) else content)"

definition zapi_media :: "(string \<times> json) list \<Rightarrow> py_error + bool \<times> json" where
  "zapi_media d =
     (if has_key d ''image'' then
        py_bind (py_get (dict_get d ''image'' JNull) ''url'' JNull) (\<lambda>u. Inr (True, u))
      else if has_key d ''document'' then
        py_bind (py_get (dict_get d ''document'' JNull) ''url'' JNull) (\<lambda>u. Inr (True, u))
      else Inr (False, JNull))"

definition zapi_normalized :: "(string \<times> json) list \<Rightarrow> json \<Rightarrow> py_error + json" where
  "zapi_normalized d event_type =
     (let phone = dict_get d ''phone'' JNull;
          sender_name =
            py_or (dict_get d ''senderName'' JNull)
              (py_or (dict_get d ''pushName'' JNull) (JStr ''Cliente''));
          from_me =
            py_or (dict_get d ''fromMe'' (JBool False)) (JBool (event_type = JStr ''SendMessage''));
          whatsapp_id = dict_get d ''messageId'' JNull;
          content = zapi_content d
      in py_bind (zapi_media d) (\<lambda>(is_media, media_url).
           Inr (JObj
             [(''remote_id'', JStr (py_str phone @ ''@c.us'')),
              (''phone'', phone),
              (''sender_name'', sender_name),
              (''content'', content),
              (''from_me'', from_me),
              (''whatsapp_id'', whatsapp_id),
              (''is_media'', JBool is_media),
              (''media_url'', media_url)])))"

definition zapi_process_webhook :: "json \<Rightarrow> py_error + json" where
  "zapi_process_webhook data =
     (case data of
        JObj d \<Rightarrow>
          (let event_type = zapi_event_type d in
           if event_type \<in> set zapi_status_events then Inr (JObj [])
           else if \<not> truthy event_type \<and> \<not> (has_key d ''phone'' \<or> has_key d ''message'')
             then Inr (JObj [])
           else
             (let event_type = (if \<not> truthy event_type then JStr ''ReceivedMessage'' else event_type)
              in if event_type \<notin> set zapi_message_events then Inr (JObj [])
                 else if zapi_is_group d then Inr (JObj [])
                 else zapi_normalized d event_type))
      | _ \<Rightarrow> Inl AttributeError)"

subsection \<open>EvolutionProvider.process\_webhook\<close>

definition evolution_content :: "json \<Rightarrow> py_error + json" where
  "evolution_content message =
     py_bind (py_in ''conversation'' message) (\<lambda>has_conversation.
       if has_conversation then py_getitem message ''conversation''
       else
         py_bind (py_in ''extendedTextMessage'' message) (\<lambda>has_extended.
           if has_extended then
             py_bind (py_getitem message ''extendedTextMessage'') (\<lambda>ext.
               py_get ext ''text'' (JStr []))
           else Inr (JStr [])))"

definition evolution_process_webhook :: "json \<Rightarrow> py_error + json" where
  "evolution_process_webhook data =
     py_bind (py_get data ''event'' JNull) (\<lambda>event.
     py_bind (py_get data ''data'' (JObj [])) (\<lambda>payload.
       if event \<noteq> JStr ''messages.upsert'' then Inr (JObj [])
       else
         py_bind (py_get payload ''message'' (JObj [])) (\<lambda>message.
         py_bind (py_get payload ''key'' (JObj [])) (\<lambda>key.
         py_bind (py_get key ''fromMe'' JNull) (\<lambda>key_from_me.
           if truthy key_from_me then Inr (JObj [(''from_me'', JBool True)])
           else
             py_bind (evolution_content message) (\<lambda>content.
             py_bind (py_get payload ''pushName'' JNull) (\<lambda>push_name.
             py_bind (py_get key ''remoteJid'' JNull) (\<lambda>remote_id.
               Inr (JObj
                 [(''remote_id'', remote_id),
                  (''sender_name'', py_or push_name (JStr ''Cliente'')),
                  (''content'', content),
                  (''from_me'', JBool False)])))))))))"

fun process_webhook :: "provider \<Rightarrow> json \<Rightarrow> py_error + json" where
  "process_webhook ZApiProvider data = zapi_process_webhook data"
| "process_webhook EvolutionProvider data = evolution_process_webhook data"

text \<open>The factory: the Z-API provider, whatever the endpoint.\<close>

definition get_whatsapp_service :: provider where
  "get_whatsapp_service = ZApiProvider"

section \<open>Store (models/models.py)\<close>

text \<open>
  The tables the conversation engine reads and writes, with the columns of the schema.
  A nullable column is an \<open>option\<close>; timestamps are readings of the database clock.
  The engine behind the session is configured elsewhere (database.py); the schema's declared
  constraints (the unique \<^verbatim>\<open>whatsapp_id\<close>, the column types, the foreign keys of
  values that come from a request) are taken as enforced, a transaction that raises
  leaves the tables as they were, and a query without \<^verbatim>\<open>order_by\<close> returns rows in
  the order they were inserted. Orders are outside this development.
\<close>

datatype SenderType = CUSTOMER | BOT | AGENT

fun sender_value :: "SenderType \<Rightarrow> string" where
  "sender_value CUSTOMER = ''customer''"
| "sender_value BOT = ''bot''"
| "sender_value AGENT = ''agent''"

record Customer =
  cust_id :: nat
  cust_name :: "string option"
  cust_phone :: "string option"
  cust_created_at :: nat

record Conversation =
  conv_id :: nat
  conv_customer_id :: nat
  conv_order_id :: "nat option"
  conv_status :: string
  conv_created_at :: nat
  conv_updated_at :: nat

record Message =
  msg_id :: nat
  msg_conversation_id :: "nat option"
  msg_content :: "string option"
  msg_media_url :: "string option"
  msg_media_type :: "string option"
  msg_sender_type :: SenderType
  msg_whatsapp_id :: "string option"
  msg_timestamp :: nat

record database =
  customers :: "Customer list"
  conversations :: "Conversation list"
  messages :: "Message list"

definition next_id :: "nat list \<Rightarrow> nat" where
  "next_id ids = Suc (fold max ids 0)"

text \<open>A value bound to a text column: \<^verbatim>\<open>None\<close> or a \<^verbatim>\<open>str\<close>.\<close>

fun as_text :: "json \<Rightarrow> py_error + string option" where
  "as_text JNull = Inr None"
| "as_text (JStr s) = Inr (Some s)"
| "as_text _ = Inl DBAPIError"

definition opt_json :: "string option \<Rightarrow> json" where
  "opt_json x = (case x of None \<Rightarrow> JNull | Some s \<Rightarrow> JStr s)"

definition id_json :: "nat option \<Rightarrow> json" where
  "id_json x = (case x of None \<Rightarrow> JNull | Some i \<Rightarrow> JInt (int i))"

definition insert_message ::
  "database \<Rightarrow> nat option \<Rightarrow> string option \<Rightarrow> string option \<Rightarrow> string option \<Rightarrow>
   SenderType \<Rightarrow> string option \<Rightarrow> nat \<Rightarrow> py_error + database \<times> Message" where
  "insert_message db conversation_id content media_url media_type sender_type whatsapp_id now =
     (if whatsapp_id \<noteq> None \<and> whatsapp_id \<in> set (map msg_whatsapp_id (messages db))
      then Inl IntegrityError
      else
        (let m = \<lparr>msg_id = next_id (map msg_id (messages db)),
                  msg_conversation_id = conversation_id,
                  msg_content = content,
                  msg_media_url = media_url,
                  msg_media_type = media_type,
                  msg_sender_type = sender_type,
                  msg_whatsapp_id = whatsapp_id,
                  msg_timestamp = now\<rparr>
         in Inr (db\<lparr>messages := messages db @ [m]\<rparr>, m)))"

definition touch_conversation :: "database \<Rightarrow> nat option \<Rightarrow> nat \<Rightarrow> database" where
  "touch_conversation db conversation_id now =
     db\<lparr>conversations :=
          map (\<lambda>v. if Some (conv_id v) = conversation_id then v\<lparr>conv_updated_at := now\<rparr> else v)
            (conversations db)\<rparr>"

definition find_open_conversation :: "database \<Rightarrow> nat \<Rightarrow> Conversation option" where
  "find_open_conversation db customer_id =
     find (\<lambda>v. conv_customer_id v = customer_id \<and> conv_status v = ''open'') (conversations db)"

definition bot_messages :: "database \<Rightarrow> nat option \<Rightarrow> Message list" where
  "bot_messages db conversation_id =
     filter (\<lambda>m. msg_conversation_id m = conversation_id \<and> msg_sender_type m = BOT) (messages db)"

section \<open>Broadcast hub (ConnectionManager)\<close>

type_synonym websocket = nat

text \<open>
  What \<^verbatim>\<open>send_text\<close> carries: the \<^verbatim>\<open>json.dumps\<close> of a message event (kept as the
  dictionary, its timestamp as the clock reading), or one of the two plain-text notices
  of the websocket endpoint.
\<close>

datatype ws_frame =
    MessageEvent json
  | ErrorNotice nat py_error
  | LeftNotice nat

record ConnectionManager =
  active_connections :: "websocket list"

definition connect :: "ConnectionManager \<Rightarrow> websocket \<Rightarrow> ConnectionManager" where
  "connect manager websocket =
     manager\<lparr>active_connections := active_connections manager @ [websocket]\<rparr>"

definition disconnect :: "ConnectionManager \<Rightarrow> websocket \<Rightarrow> ConnectionManager option" where
  "disconnect manager websocket =
     (if websocket \<in> set (active_connections manager)
      then Some (manager\<lparr>active_connections := remove1 websocket (active_connections manager)\<rparr>)
      else None)"

text \<open>
  The loop of \<^verbatim>\<open>broadcast\<close>: \<open>fails c\<close> says that \<^verbatim>\<open>send_text\<close> raises on connection
  \<open>c\<close>. The result is the frames that were sent and how the loop ended.
\<close>

fun send_each ::
  "(websocket \<Rightarrow> bool) \<Rightarrow> websocket list \<Rightarrow> ws_frame \<Rightarrow>
   (websocket \<times> ws_frame) list \<times> (py_error + unit)" where
  "send_each fails [] message = ([], Inr ())"
| "send_each fails (connection # rest) message =
     (if fails connection then ([], Inl WebSocketError)
      else (case send_each fails rest message of
              (sent, r) \<Rightarrow> ((connection, message) # sent, r)))"

definition broadcast ::
  "ConnectionManager \<Rightarrow> (websocket \<Rightarrow> bool) \<Rightarrow> ws_frame \<Rightarrow>
   ConnectionManager \<times> (websocket \<times> ws_frame) list \<times> (py_error + unit)" where
  "broadcast manager fails message =
     (case send_each fails (active_connections manager) message of
        (sent, r) \<Rightarrow> (manager, sent, r))"

definition outgoing_media :: "Message \<Rightarrow> json" where
  "outgoing_media m =
     JObj [(''type'', JStr ''message''),
           (''id'', JInt (int (msg_id m))),
           (''conversation_id'', id_json (msg_conversation_id m)),
           (''content'', opt_json (msg_content m)),
           (''media_url'', opt_json (msg_media_url m)),
           (''media_type'', opt_json (msg_media_type m)),
           (''sender_type'', JStr (sender_value (msg_sender_type m))),
           (''timestamp'', JInt (int (msg_timestamp m)))]"

definition outgoing :: "Message \<Rightarrow> json" where
  "outgoing m =
     JObj [(''type'', JStr ''message''),
           (''id'', JInt (int (msg_id m))),
           (''conversation_id'', id_json (msg_conversation_id m)),
           (''content'', opt_json (msg_content m)),
           (''sender_type'', JStr (sender_value (msg_sender_type m))),
           (''timestamp'', JInt (int (msg_timestamp m)))]"

section \<open>Collaborators\<close>

text \<open>
  What the outside world answers during one request: the database clock when the
  inbound message is stored and when the bot message is stored, what
  \<^verbatim>\<open>generate_chat_response\<close> returns or raises, how the provider's HTTP endpoint
  answers, and the websockets on which \<^verbatim>\<open>send_text\<close> raises.
\<close>

datatype http_outcome =
    HttpOk json
  | HttpRejected
  | HttpFailed

record env =
  now :: nat
  now_bot :: nat
  chat_response :: "py_error + string option"
  http :: http_outcome
  send_fails :: "websocket \<Rightarrow> bool"

text \<open>
  \<^verbatim>\<open>send_message\<close>: Z-API returns the \<^verbatim>\<open>messageId\<close> of a 200/201 answer and
  \<^verbatim>\<open>None\<close> on any other status or exception; the Evolution stub returns \<^verbatim>\<open>True\<close>.
\<close>

fun send_message :: "provider \<Rightarrow> http_outcome \<Rightarrow> string \<Rightarrow> string option \<Rightarrow> json" where
  "send_message ZApiProvider (HttpOk message_id) to content = message_id"
| "send_message ZApiProvider HttpRejected to content = JNull"
| "send_message ZApiProvider HttpFailed to content = JNull"
| "send_message EvolutionProvider h to content = JBool True"

section \<open>Webhook pipelines (routers/conversations.py)\<close>

text \<open>
  What a request leaves behind: the tables, the frames its broadcasts sent, and the
  \<^verbatim>\<open>status\<close> of the body it answers with, or the exception that escapes the handler.
\<close>

record outcome =
  store :: database
  delivered :: "(websocket \<times> ws_frame) list"
  response :: "py_error + string"

definition reply :: "database \<Rightarrow> (websocket \<times> ws_frame) list \<Rightarrow> string \<Rightarrow> outcome" where
  "reply db sent status = \<lparr>store = db, delivered = sent, response = Inr status\<rparr>"

definition raise :: "database \<Rightarrow> (websocket \<times> ws_frame) list \<Rightarrow> py_error \<Rightarrow> outcome" where
  "raise db sent err = \<lparr>store = db, delivered = sent, response = Inl err\<rparr>"

subsection \<open>Steps shared by the two webhooks\<close>

text \<open>
  Step 1, find or create the customer. \<open>from_me\<close> is the Z-API webhook's guard on the
  name update; the Evolution webhook has dropped operator events before and passes
  \<open>False\<close>.
\<close>

definition resolve_customer ::
  "database \<Rightarrow> (string \<times> json) list \<Rightarrow> string \<Rightarrow> bool \<Rightarrow> nat \<Rightarrow> py_error + database \<times> Customer" where
  "resolve_customer db n phone from_me t =
     (case find (\<lambda>c. cust_phone c = Some phone) (customers db) of
        None \<Rightarrow>
          py_bind (as_text (dict_get n ''sender_name'' (JStr ''Cliente''))) (\<lambda>name.
            let customer = \<lparr>cust_id = next_id (map cust_id (customers db)),
                             cust_name = name,
                             cust_phone = Some phone,
                             cust_created_at = t\<rparr>
            in Inr (db\<lparr>customers := customers db @ [customer]\<rparr>, customer))
      | Some customer \<Rightarrow>
          if (cust_name customer = Some ''Cliente'' \<or> cust_name customer = None
              \<or> cust_name customer = Some []) \<and> \<not> from_me
          then
            py_bind (as_text (dict_get n ''sender_name'' (JStr ''Cliente''))) (\<lambda>name.
              let renamed = customer\<lparr>cust_name := name\<rparr>
              in Inr (db\<lparr>customers :=
                           map (\<lambda>c. if cust_id c = cust_id customer then renamed else c)
                             (customers db)\<rparr>,
                      renamed))
          else Inr (db, customer))"

text \<open>Step 2, find or create the open conversation.\<close>

definition resolve_conversation :: "database \<Rightarrow> nat \<Rightarrow> nat \<Rightarrow> database \<times> Conversation" where
  "resolve_conversation db customer_id t =
     (case find_open_conversation db customer_id of
        Some conversation \<Rightarrow> (db, conversation)
      | None \<Rightarrow>
          (let conversation = \<lparr>conv_id = next_id (map conv_id (conversations db)),
                               conv_customer_id = customer_id,
                               conv_order_id = None,
                               conv_status = ''open'',
                               conv_created_at = t,
                               conv_updated_at = t\<rparr>
           in (db\<lparr>conversations := conversations db @ [conversation]\<rparr>, conversation)))"

subsection \<open>zapi\_webhook\<close>

text \<open>Step 0, the duplicate check: \<open>True\<close> when the message is already stored.\<close>

definition zapi_dedup :: "database \<Rightarrow> json \<Rightarrow> py_error + bool" where
  "zapi_dedup db whatsapp_id =
     (if truthy whatsapp_id then
        (case whatsapp_id of
           JStr w \<Rightarrow> Inr (Some w \<in> set (map msg_whatsapp_id (messages db)))
         | _ \<Rightarrow> Inl DBAPIError)
      else Inr False)"

definition zapi_phone :: "(string \<times> json) list \<Rightarrow> py_error + json" where
  "zapi_phone n =
     (let remote_id = dict_get n ''remote_id'' JNull;
          phone = dict_get n ''phone'' JNull
      in if truthy phone then Inr phone
         else if truthy remote_id then
           (case remote_id of
              JStr r \<Rightarrow> Inr (JStr (before_at r))
            | _ \<Rightarrow> Inl AttributeError)
         else Inr JNull)"

text \<open>Steps 1 to 4 and the commit: one transaction.\<close>

definition zapi_store_message ::
  "database \<Rightarrow> (string \<times> json) list \<Rightarrow> string \<Rightarrow> bool \<Rightarrow> nat \<Rightarrow>
   py_error + database \<times> Customer \<times> Conversation \<times> Message" where
  "zapi_store_message db n phone from_me t =
     py_bind (resolve_customer db n phone from_me t) (\<lambda>(db1, customer).
       case resolve_conversation db1 (cust_id customer) t of
         (db2, conversation) \<Rightarrow>
           py_bind (as_text (dict_get n ''content'' JNull)) (\<lambda>content.
           py_bind (as_text (dict_get n ''media_url'' JNull)) (\<lambda>media_url.
           py_bind (as_text (dict_get n ''whatsapp_id'' JNull)) (\<lambda>whatsapp_id.
           py_bind
             (insert_message db2 (Some (conv_id conversation)) content media_url
                (if truthy (dict_get n ''is_media'' JNull) then Some ''image'' else None)
                (if from_me then AGENT else CUSTOMER) whatsapp_id t)
             (\<lambda>(db3, db_message).
                Inr (touch_conversation db3 (Some (conv_id conversation)) t,
                     customer, conversation, db_message))))))"

text \<open>
  Step 6 once the gate is open: the body of the \<^verbatim>\<open>try\<close>, whose every exception is
  caught and printed.
\<close>

definition zapi_greet ::
  "ConnectionManager \<Rightarrow> env \<Rightarrow> database \<Rightarrow> Conversation \<Rightarrow> string \<Rightarrow>
   database \<times> (websocket \<times> ws_frame) list" where
  "zapi_greet manager e db conversation phone =
     (case chat_response e of
        Inl err \<Rightarrow> (db, [])
      | Inr None \<Rightarrow> (db, [])
      | Inr (Some response_text) \<Rightarrow>
          if response_text = [] then (db, [])
          else
            (let bot_whatsapp_id =
                   send_message get_whatsapp_service (http e) phone (Some response_text)
             in case py_bind (as_text bot_whatsapp_id) (\<lambda>w.
                       insert_message db (Some (conv_id conversation)) (Some response_text)
                         None None BOT w (now_bot e)) of
                  Inl err \<Rightarrow> (db, [])
                | Inr (db', bot_message) \<Rightarrow>
                    (case broadcast manager (send_fails e) (MessageEvent (outgoing bot_message)) of
                       (_, sent, _) \<Rightarrow> (db', sent))))"

definition zapi_pipeline ::
  "ConnectionManager \<Rightarrow> env \<Rightarrow> database \<Rightarrow> (string \<times> json) list \<Rightarrow> outcome" where
  "zapi_pipeline manager e db n =
     (let whatsapp_id = dict_get n ''whatsapp_id'' JNull;
          from_me = truthy (dict_get n ''from_me'' (JBool False))
      in case zapi_dedup db whatsapp_id of
           Inl err \<Rightarrow> raise db [] err
         | Inr True \<Rightarrow> reply db [] ''already_processed''
         | Inr False \<Rightarrow>
            (case zapi_phone n of
               Inl err \<Rightarrow> raise db [] err
             | Inr phone \<Rightarrow>
                if \<not> truthy phone then reply db [] ''no_phone''
                else
                  (case phone of
                     JStr p \<Rightarrow>
                       (case zapi_store_message db n p from_me (now e) of
                          Inl err \<Rightarrow> raise db [] err
                        | Inr (db', customer, conversation, db_message) \<Rightarrow>
                            (case broadcast manager (send_fails e)
                                    (MessageEvent (outgoing_media db_message)) of
                               (_, sent, Inl err) \<Rightarrow> raise db' sent err
                             | (_, sent, Inr _) \<Rightarrow>
                                 if from_me then reply db' sent ''success''
                                 else if bot_messages db' (Some (conv_id conversation)) \<noteq> []
                                 then reply db' sent ''success''
                                 else
                                   (case zapi_greet manager e db' conversation p of
                                      (db'', sent') \<Rightarrow> reply db'' (sent @ sent') ''success'')))
                   | _ \<Rightarrow> raise db [] DBAPIError)))"

text \<open>
  The endpoint. \<open>body\<close> is the parsed request body, \<open>None\<close> when \<^verbatim>\<open>json.loads\<close>
  raises.
\<close>

definition zapi_webhook ::
  "ConnectionManager \<Rightarrow> env \<Rightarrow> database \<Rightarrow> string \<Rightarrow> json option \<Rightarrow> outcome" where
  "zapi_webhook manager e db method body =
     (if method = ''GET'' then reply db [] ''ok''
      else
        (case body of
           None \<Rightarrow> reply db [] ''error''
         | Some data \<Rightarrow>
            (case process_webhook get_whatsapp_service data of
               Inl err \<Rightarrow> raise db [] err
             | Inr normalized \<Rightarrow>
                if \<not> truthy normalized then reply db [] ''ignored''
                else
                  (case normalized of
                     JObj n \<Rightarrow> zapi_pipeline manager e db n
                   | _ \<Rightarrow> raise db [] AttributeError))))"

subsection \<open>evolution\_webhook\<close>

text \<open>Steps 1 to 4 and the commit.\<close>

definition evolution_store_message ::
  "database \<Rightarrow> (string \<times> json) list \<Rightarrow> string \<Rightarrow> nat \<Rightarrow>
   py_error + database \<times> Customer \<times> Conversation \<times> Message" where
  "evolution_store_message db n phone t =
     py_bind (resolve_customer db n phone False t) (\<lambda>(db1, customer).
       case resolve_conversation db1 (cust_id customer) t of
         (db2, conversation) \<Rightarrow>
           py_bind (as_text (dict_get n ''content'' JNull)) (\<lambda>content.
           py_bind
             (insert_message db2 (Some (conv_id conversation)) content None None CUSTOMER None t)
             (\<lambda>(db3, db_message).
                Inr (touch_conversation db3 (Some (conv_id conversation)) t,
                     customer, conversation, db_message))))"

text \<open>
  Step 6 once the gate is open; nothing here is caught. The greeting is handed to the
  provider, whose answer is dropped.
\<close>

definition evolution_greet ::
  "ConnectionManager \<Rightarrow> env \<Rightarrow> database \<Rightarrow> (websocket \<times> ws_frame) list \<Rightarrow> Conversation \<Rightarrow>
   string \<Rightarrow> outcome" where
  "evolution_greet manager e db sent conversation phone =
     (case chat_response e of
        Inl err \<Rightarrow> raise db sent err
      | Inr bot_content \<Rightarrow>
          (case insert_message db (Some (conv_id conversation)) bot_content None None BOT None
                  (now_bot e) of
             Inl err \<Rightarrow> raise db sent err
           | Inr (db', bot_message) \<Rightarrow>
               (case broadcast manager (send_fails e) (MessageEvent (outgoing bot_message)) of
                  (_, sent', Inl err) \<Rightarrow> raise db' (sent @ sent') err
                | (_, sent', Inr _) \<Rightarrow> reply db' (sent @ sent') ''success'')))"

definition evolution_pipeline ::
  "ConnectionManager \<Rightarrow> env \<Rightarrow> database \<Rightarrow> (string \<times> json) list \<Rightarrow> outcome" where
  "evolution_pipeline manager e db n =
     (case dict_get n ''remote_id'' JNull of
        JStr remote_id \<Rightarrow>
          (let phone = before_at remote_id
           in case evolution_store_message db n phone (now e) of
                Inl err \<Rightarrow> raise db [] err
              | Inr (db', customer, conversation, db_message) \<Rightarrow>
                  (case broadcast manager (send_fails e) (MessageEvent (outgoing db_message)) of
                     (_, sent, Inl err) \<Rightarrow> raise db' sent err
                   | (_, sent, Inr _) \<Rightarrow>
                       if bot_messages db' (Some (conv_id conversation)) = []
                       then evolution_greet manager e db' sent conversation phone
                       else reply db' sent ''success''))
      | _ \<Rightarrow> raise db [] AttributeError)"

text \<open>
  The endpoint. \<open>data\<close> is the request body, which the framework has parsed; the
  service is the one the factory returns.
\<close>

definition evolution_webhook ::
  "ConnectionManager \<Rightarrow> env \<Rightarrow> database \<Rightarrow> json \<Rightarrow> outcome" where
  "evolution_webhook manager e db data =
     (case process_webhook get_whatsapp_service data of
        Inl err \<Rightarrow> raise db [] err
      | Inr normalized \<Rightarrow>
          if \<not> truthy normalized then reply db [] ''ignored''
          else
            (case normalized of
               JObj n \<Rightarrow>
                 if truthy (dict_get n ''from_me'' JNull) then reply db [] ''ignored''
                 else evolution_pipeline manager e db n
             | _ \<Rightarrow> raise db [] AttributeError))"

subsection \<open>websocket\_endpoint\<close>

text \<open>
  One turn of the receive loop. \<open>Inr ''continue''\<close> stands for the loop going on to the
  next \<^verbatim>\<open>receive_text\<close>; an exception that escapes ends the endpoint. An agent's
  message is also handed to the provider, whose answer the handler drops.
\<close>

fun SenderType_of :: "json \<Rightarrow> SenderType option" where
  "SenderType_of (JStr s) =
     (if s = ''customer'' then Some CUSTOMER
      else if s = ''bot'' then Some BOT
      else if s = ''agent'' then Some AGENT
      else None)"
| "SenderType_of _ = None"

definition ws_sender_type :: "(string \<times> json) list \<Rightarrow> SenderType" where
  "ws_sender_type message_data =
     (case SenderType_of (dict_get message_data ''sender_type'' (JStr (sender_value CUSTOMER))) of
        Some sender_type \<Rightarrow> sender_type
      | None \<Rightarrow> CUSTOMER)"

text \<open>A value bound to the foreign key \<^verbatim>\<open>messages.conversation_id\<close>.\<close>

definition ws_conversation_id :: "database \<Rightarrow> json \<Rightarrow> py_error + nat option" where
  "ws_conversation_id db v =
     (case v of
        JNull \<Rightarrow> Inr None
      | JInt i \<Rightarrow>
          if 0 \<le> i \<and> nat i \<in> set (map conv_id (conversations db)) then Inr (Some (nat i))
          else Inl IntegrityError
      | _ \<Rightarrow> Inl DBAPIError)"

definition ws_store_message ::
  "database \<Rightarrow> (string \<times> json) list \<Rightarrow> nat \<Rightarrow> py_error + database \<times> Message" where
  "ws_store_message db message_data t =
     py_bind (ws_conversation_id db (dict_get message_data ''conversation_id'' JNull))
       (\<lambda>conversation_id.
     py_bind (as_text (dict_get message_data ''content'' JNull)) (\<lambda>content.
     py_bind
       (insert_message db conversation_id content None None (ws_sender_type message_data) None t)
       (\<lambda>(db1, db_message). Inr (touch_conversation db1 conversation_id t, db_message))))"

text \<open>The \<^verbatim>\<open>except Exception\<close> of the loop body: the error is broadcast as text.\<close>

definition ws_except ::
  "ConnectionManager \<Rightarrow> env \<Rightarrow> database \<Rightarrow> (websocket \<times> ws_frame) list \<Rightarrow> nat \<Rightarrow> py_error \<Rightarrow>
   outcome" where
  "ws_except manager e db sent client_id err =
     (case broadcast manager (send_fails e) (ErrorNotice client_id err) of
        (_, sent', Inl err') \<Rightarrow> raise db (sent @ sent') err'
      | (_, sent', Inr _) \<Rightarrow> reply db (sent @ sent') ''continue'')"

definition ws_greet ::
  "ConnectionManager \<Rightarrow> env \<Rightarrow> database \<Rightarrow> (websocket \<times> ws_frame) list \<Rightarrow> nat \<Rightarrow> Message \<Rightarrow>
   outcome" where
  "ws_greet manager e db sent client_id db_message =
     (case chat_response e of
        Inl err \<Rightarrow> ws_except manager e db sent client_id err
      | Inr bot_content \<Rightarrow>
          (case insert_message db (msg_conversation_id db_message) bot_content None None BOT None
                  (now_bot e) of
             Inl err \<Rightarrow> ws_except manager e db sent client_id err
           | Inr (db1, bot_message) \<Rightarrow>
               (let db2 = touch_conversation db1 (msg_conversation_id db_message) (now_bot e)
                in case broadcast manager (send_fails e) (MessageEvent (outgoing bot_message)) of
                     (_, sent', Inl err) \<Rightarrow> ws_except manager e db2 (sent @ sent') client_id err
                   | (_, sent', Inr _) \<Rightarrow> reply db2 (sent @ sent') ''continue'')))"

definition websocket_receive ::
  "ConnectionManager \<Rightarrow> env \<Rightarrow> database \<Rightarrow> nat \<Rightarrow> json option \<Rightarrow> outcome" where
  "websocket_receive manager e db client_id body =
     (case body of
        None \<Rightarrow> ws_except manager e db [] client_id ValueError
      | Some (JObj message_data) \<Rightarrow>
          (case ws_store_message db message_data (now e) of
             Inl err \<Rightarrow> ws_except manager e db [] client_id err
           | Inr (db1, db_message) \<Rightarrow>
               (case broadcast manager (send_fails e) (MessageEvent (outgoing db_message)) of
                  (_, sent, Inl err) \<Rightarrow> ws_except manager e db1 sent client_id err
                | (_, sent, Inr _) \<Rightarrow>
                    if msg_sender_type db_message = CUSTOMER
                       \<and> bot_messages db1 (msg_conversation_id db_message) = []
                    then ws_greet manager e db1 sent client_id db_message
                    else reply db1 sent ''continue''))
      | Some _ \<Rightarrow> ws_except manager e db [] client_id AttributeError)"

subsection \<open>create\_conversation\<close>

text \<open>
  The request's \<^verbatim>\<open>ConversationCreate\<close> is stored as it comes. Of its two foreign
  keys the customer's is checked; orders are outside this development, and so is the
  check of \<^verbatim>\<open>order_id\<close>.
\<close>

definition create_conversation ::
  "database \<Rightarrow> nat \<Rightarrow> string \<Rightarrow> nat option \<Rightarrow> nat \<Rightarrow> py_error + database \<times> Conversation" where
  "create_conversation db customer_id status order_id t =
     (if customer_id \<notin> set (map cust_id (customers db)) then Inl IntegrityError
      else
        (let db_conversation = \<lparr>conv_id = next_id (map conv_id (conversations db)),
                                  conv_customer_id = customer_id,
                                  conv_order_id = order_id,
                                  conv_status = status,
                                  conv_created_at = t,
                                  conv_updated_at = t\<rparr>
         in Inr (db\<lparr>conversations := conversations db @ [db_conversation]\<rparr>, db_conversation)))"

subsection \<open>broadcast\_encarte\<close>

text \<open>
  The open conversation the loop picks: the first row of the query ordered by
  \<^verbatim>\<open>updated_at\<close> descending.
\<close>

fun latest :: "Conversation list \<Rightarrow> Conversation option" where
  "latest [] = None"
| "latest (v # vs) =
     (case latest vs of
        None \<Rightarrow> Some v
      | Some w \<Rightarrow> if conv_updated_at v < conv_updated_at w then Some w else Some v)"

definition encarte_conversation :: "database \<Rightarrow> nat \<Rightarrow> nat \<Rightarrow> database \<times> Conversation" where
  "encarte_conversation db customer_id t =
     (case latest (filter (\<lambda>v. conv_customer_id v = customer_id \<and> conv_status v = ''open'')
                    (conversations db)) of
        Some conversation \<Rightarrow> (db, conversation)
      | None \<Rightarrow>
          (let conversation = \<lparr>conv_id = next_id (map conv_id (conversations db)),
                               conv_customer_id = customer_id,
                               conv_order_id = None,
                               conv_status = ''open'',
                               conv_created_at = t,
                               conv_updated_at = t\<rparr>
           in (db\<lparr>conversations := conversations db @ [conversation]\<rparr>, conversation)))"

text \<open>
  The loop over the chosen customers. \<open>media\<close> is the url and kind of the uploaded file,
  when there is one.
\<close>

fun encarte_loop ::
  "database \<Rightarrow> string \<Rightarrow> (string \<times> string) option \<Rightarrow> nat \<Rightarrow> Customer list \<Rightarrow>
   py_error + database \<times> nat list" where
  "encarte_loop db content media t [] = Inr (db, [])"
| "encarte_loop db content media t (customer # rest) =
     (case encarte_conversation db (cust_id customer) t of
        (db1, conversation) \<Rightarrow>
          py_bind
            (insert_message db1 (Some (conv_id conversation)) (Some content)
               (map_option fst media) (map_option snd media) BOT None t)
            (\<lambda>(db2, db_message).
               py_bind (encarte_loop db2 content media t rest) (\<lambda>(db3, sent_to).
                 Inr (db3, cust_id customer # sent_to))))"

text \<open>
  The endpoint; \<open>customer_ids\<close> is the parsed \<^verbatim>\<open>customer_ids_json\<close>, empty when the
  field is absent or does not parse. The result is the tables and \<^verbatim>\<open>sent_to\<close>.
\<close>

definition broadcast_encarte ::
  "database \<Rightarrow> string \<Rightarrow> (string \<times> string) option \<Rightarrow> nat list \<Rightarrow> nat \<Rightarrow>
   py_error + database \<times> nat list" where
  "broadcast_encarte db content media customer_ids t =
     encarte_loop db content media t
       (if customer_ids = [] then customers db
        else filter (\<lambda>c. cust_id c \<in> set customer_ids) (customers db))"

section \<open>Runs of the engine\<close>

text \<open>
  The requests that write conversations and messages, each with what the outside world
  answers while it is handled. A run handles them one at a time: each request is
  finished before the next one starts.
\<close>

datatype request =
    ZapiWebhook string "json option"
  | EvolutionWebhook json
  | WebsocketText nat "json option"
  | BroadcastEncarte string "(string \<times> string) option" "nat list"
  | CreateConversation nat string "nat option"

fun handle :: "ConnectionManager \<Rightarrow> database \<Rightarrow> env \<times> request \<Rightarrow> database" where
  "handle manager db (e, ZapiWebhook method body) = store (zapi_webhook manager e db method body)"
| "handle manager db (e, EvolutionWebhook data) = store (evolution_webhook manager e db data)"
| "handle manager db (e, WebsocketText client_id body) =
     store (websocket_receive manager e db client_id body)"
| "handle manager db (e, BroadcastEncarte content media customer_ids) =
     (case broadcast_encarte db content media customer_ids (now e) of
        Inl err \<Rightarrow> db
      | Inr (db', sent_to) \<Rightarrow> db')"
| "handle manager db (e, CreateConversation customer_id status order_id) =
     (case create_conversation db customer_id status order_id (now e) of
        Inl err \<Rightarrow> db
      | Inr (db', conversation) \<Rightarrow> db')"

text \<open>
  The bot messages the first-contact trigger stored while a request was handled: the
  bot messages a webhook added, and the bot messages a websocket text added after the
  received message itself.
\<close>

definition new_messages :: "database \<Rightarrow> database \<Rightarrow> Message list" where
  "new_messages db db' = drop (length (messages db)) (messages db')"

fun greetings :: "ConnectionManager \<Rightarrow> database \<Rightarrow> env \<times> request \<Rightarrow> Message list" where
  "greetings manager db (e, ZapiWebhook method body) =
     filter (\<lambda>m. msg_sender_type m = BOT)
       (new_messages db (handle manager db (e, ZapiWebhook method body)))"
| "greetings manager db (e, EvolutionWebhook data) =
     filter (\<lambda>m. msg_sender_type m = BOT)
       (new_messages db (handle manager db (e, EvolutionWebhook data)))"
| "greetings manager db (e, WebsocketText client_id body) =
     filter (\<lambda>m. msg_sender_type m = BOT)
       (tl (new_messages db (handle manager db (e, WebsocketText client_id body))))"
| "greetings manager db (e, BroadcastEncarte content media customer_ids) = []"
| "greetings manager db (e, CreateConversation customer_id status order_id) = []"

fun run :: "ConnectionManager \<Rightarrow> database \<Rightarrow> (env \<times> request) list \<Rightarrow> database" where
  "run manager db [] = db"
| "run manager db (r # rs) = run manager (handle manager db r) rs"

fun run_greetings ::
  "ConnectionManager \<Rightarrow> database \<Rightarrow> (env \<times> request) list \<Rightarrow> Message list" where
  "run_greetings manager db [] = []"
| "run_greetings manager db (r # rs) =
     greetings manager db r @ run_greetings manager (handle manager db r) rs"

text \<open>At most one open conversation for each customer.\<close>

definition open_conversations :: "database \<Rightarrow> nat \<Rightarrow> Conversation list" where
  "open_conversations db customer_id =
     filter (\<lambda>v. conv_customer_id v = customer_id \<and> conv_status v = ''open'') (conversations db)"

definition one_open_conversation :: "database \<Rightarrow> bool" where
  "one_open_conversation db = (\<forall>c. length (open_conversations db c) \<le> 1)"

subsection \<open>Two Z-API requests that overlap\<close>

text \<open>
  The handler gives up control at every \<^verbatim>\<open>await\<close>. Between the query of the gate
  and the insert of the greeting it awaits the reply generator and the provider, and
  nothing holds the conversation meanwhile. The pipeline is cut there: the first half
  ends either with the request finished or, the gate found open, with the handler
  waiting for the reply generator; the second half is the body of the \<^verbatim>\<open>try\<close>, run
  on the tables as they are when the handler goes on.
\<close>

record pending_greeting =
  pending_conversation :: Conversation
  pending_phone :: string
  pending_sent :: "(websocket \<times> ws_frame) list"

definition zapi_pipeline_until_greeting ::
  "ConnectionManager \<Rightarrow> env \<Rightarrow> database \<Rightarrow> (string \<times> json) list \<Rightarrow>
   outcome + database \<times> pending_greeting" where
  "zapi_pipeline_until_greeting manager e db n =
     (let whatsapp_id = dict_get n ''whatsapp_id'' JNull;
          from_me = truthy (dict_get n ''from_me'' (JBool False))
      in case zapi_dedup db whatsapp_id of
           Inl err \<Rightarrow> Inl (raise db [] err)
         | Inr True \<Rightarrow> Inl (reply db [] ''already_processed'')
         | Inr False \<Rightarrow>
            (case zapi_phone n of
               Inl err \<Rightarrow> Inl (raise db [] err)
             | Inr phone \<Rightarrow>
                if \<not> truthy phone then Inl (reply db [] ''no_phone'')
                else
                  (case phone of
                     JStr p \<Rightarrow>
                       (case zapi_store_message db n p from_me (now e) of
                          Inl err \<Rightarrow> Inl (raise db [] err)
                        | Inr (db', customer, conversation, db_message) \<Rightarrow>
                            (case broadcast manager (send_fails e)
                                    (MessageEvent (outgoing_media db_message)) of
                               (_, sent, Inl err) \<Rightarrow> Inl (raise db' sent err)
                             | (_, sent, Inr _) \<Rightarrow>
                                 if from_me then Inl (reply db' sent ''success'')
                                 else if bot_messages db' (Some (conv_id conversation)) \<noteq> []
                                 then Inl (reply db' sent ''success'')
                                 else
                                   Inr (db',
                                        \<lparr>pending_conversation = conversation,
                                         pending_phone = p,
                                         pending_sent = sent\<rparr>)))
                   | _ \<Rightarrow> Inl (raise db [] DBAPIError))))"

definition zapi_pipeline_resume ::
  "ConnectionManager \<Rightarrow> env \<Rightarrow> database \<Rightarrow> pending_greeting \<Rightarrow> outcome" where
  "zapi_pipeline_resume manager e db pending =
     (case zapi_greet manager e db (pending_conversation pending) (pending_phone pending) of
        (db'', sent') \<Rightarrow> reply db'' (pending_sent pending @ sent') ''success'')"

text \<open>
  Two events, the second of which arrives and is handled up to its own gate while the
  first waits for the reply generator; then the first goes on, then the second. The
  result is the tables in the end.
\<close>

definition zapi_overlapping ::
  "ConnectionManager \<Rightarrow> env \<Rightarrow> env \<Rightarrow> database \<Rightarrow> (string \<times> json) list \<Rightarrow>
   (string \<times> json) list \<Rightarrow> database" where
  "zapi_overlapping manager e1 e2 db n1 n2 =
     (case zapi_pipeline_until_greeting manager e1 db n1 of
        Inl finished \<Rightarrow> store (zapi_pipeline manager e2 (store finished) n2)
      | Inr (db1, pending1) \<Rightarrow>
          (case zapi_pipeline_until_greeting manager e2 db1 n2 of
             Inl finished \<Rightarrow> store (zapi_pipeline_resume manager e1 (store finished) pending1)
           | Inr (db2, pending2) \<Rightarrow>
               store (zapi_pipeline_resume manager e2
                        (store (zapi_pipeline_resume manager e1 db2 pending1)) pending2)))"

section \<open>Scenarios\<close>

text \<open>
  The scenario of the specification: the customer 5511999990000 writes ``Oi'' and has no
  prior record. Nobody observes, the bot greets, the provider accepts the greeting.
\<close>

definition empty_db :: database where
  "empty_db = \<lparr>customers = [], conversations = [], messages = []\<rparr>"

definition no_observers :: ConnectionManager where
  "no_observers = \<lparr>active_connections = []\<rparr>"

definition quiet_env :: env where
  "quiet_env =
     \<lparr>now = 100, now_bot = 105, chat_response = Inr (Some ''Bom dia!''),
      http = HttpOk (JStr ''BOT1''), send_fails = (\<lambda>c. False)\<rparr>"

definition oi_event :: "string \<Rightarrow> json" where
  "oi_event message_id =
     JObj [(''type'', JStr ''ReceivedCallback''),
           (''phone'', JStr ''5511999990000''),
           (''senderName'', JStr ''Maria''),
           (''text'', JObj [(''message'', JStr ''Oi'')]),
           (''messageId'', JStr message_id)]"

definition oi_normalized :: "string \<Rightarrow> (string \<times> json) list" where
  "oi_normalized message_id =
     [(''remote_id'', JStr ''5511999990000@c.us''),
      (''phone'', JStr ''5511999990000''),
      (''sender_name'', JStr ''Maria''),
      (''content'', JStr ''Oi''),
      (''from_me'', JBool False),
      (''whatsapp_id'', JStr message_id),
      (''is_media'', JBool False),
      (''media_url'', JNull)]"

definition after_oi :: "string \<Rightarrow> database" where
  "after_oi message_id =
     store (zapi_webhook no_observers quiet_env empty_db ''POST'' (Some (oi_event message_id)))"

section \<open>Shapes of payloads\<close>

text \<open>
  The shapes the adapters rely on without checking: an entry that, when present, is an
  object.
\<close>

fun is_object :: "json \<Rightarrow> bool" where
  "is_object (JObj d) = True"
| "is_object _ = False"

definition object_if_present :: "(string \<times> json) list \<Rightarrow> string \<Rightarrow> bool" where
  "object_if_present d k = (case map_of d k of None \<Rightarrow> True | Some v \<Rightarrow> is_object v)"

definition evolution_shaped :: "(string \<times> json) list \<Rightarrow> bool" where
  "evolution_shaped d =
     (case dict_get d ''data'' (JObj []) of
        JObj payload \<Rightarrow>
          (case dict_get payload ''key'' (JObj []) of
             JObj key \<Rightarrow>
               (case dict_get payload ''message'' (JObj []) of
                  JObj message \<Rightarrow> object_if_present message ''extendedTextMessage''
                | _ \<Rightarrow> False)
           | _ \<Rightarrow> False)
      | _ \<Rightarrow> False)"

text \<open>More payloads: a media message whose \<^verbatim>\<open>image\<close> is the bare url, and two
  Evolution upserts, one with a null message and one from a group.\<close>

definition image_url_event :: json where
  "image_url_event =
     JObj [(''type'', JStr ''ReceivedCallback''),
           (''phone'', JStr ''5511999990000''),
           (''image'', JStr ''https://cdn.example/a.png''),
           (''messageId'', JStr ''A2'')]"

definition upsert_null_message :: json where
  "upsert_null_message =
     JObj [(''event'', JStr ''messages.upsert''),
           (''data'', JObj [(''key'', JObj [(''remoteJid'', JStr ''5511999990000@s.whatsapp.net'')]),
                            (''message'', JNull)])]"

definition upsert_event :: "string \<Rightarrow> json" where
  "upsert_event remote_jid =
     JObj [(''event'', JStr ''messages.upsert''),
           (''data'', JObj [(''key'', JObj [(''remoteJid'', JStr remote_jid)]),
                            (''pushName'', JStr ''Maria''),
                            (''message'', JObj [(''conversation'', JStr ''Oi'')])])]"

text \<open>A committed message event, and three observers of which the second is gone.\<close>

definition oi_frame :: ws_frame where
  "oi_frame = MessageEvent (outgoing_media (hd (messages (after_oi ''A1''))))"

definition three_observers :: ConnectionManager where
  "three_observers = \<lparr>active_connections = [1, 2, 3]\<rparr>"

text \<open>
  A group message with the flag, one that only carries the group suffix, a status
  event, an Evolution connection event, a message without a phone, and one whose phone
  is empty.
\<close>

definition group_suffix_event :: json where
  "group_suffix_event =
     JObj [(''type'', JStr ''ReceivedCallback''),
           (''phone'', JStr ''120363041234567890@g.us''),
           (''text'', JObj [(''message'', JStr ''Oi'')]),
           (''messageId'', JStr ''G2'')]"

definition status_event :: json where
  "status_event =
     JObj [(''type'', JStr ''MessageStatus''),
           (''phone'', JStr ''5511999990000''),
           (''status'', JStr ''READ''),
           (''messageId'', JStr ''A1'')]"

definition connection_event :: json where
  "connection_event =
     JObj [(''event'', JStr ''connection.update''),
           (''data'', JObj [(''state'', JStr ''open'')])]"


definition group_event :: json where
  "group_event =
     JObj [(''type'', JStr ''ReceivedCallback''),
           (''phone'', JStr ''120363041234567890@g.us''),
           (''isGroup'', JBool True),
           (''text'', JObj [(''message'', JStr ''Oi'')]),
           (''messageId'', JStr ''G1'')]"

definition no_phone_event :: json where
  "no_phone_event = JObj [(''message'', JStr ''oi''), (''messageId'', JStr ''N1'')]"

definition empty_phone_event :: json where
  "empty_phone_event = JObj [(''phone'', JStr []), (''message'', JStr ''oi'')]"

section \<open>Predicates of the statements\<close>

text \<open>The reply generator produced no text: it raised, or returned nothing or the
  empty string.\<close>

fun no_reply :: "py_error + string option \<Rightarrow> bool" where
  "no_reply (Inl err) = True"
| "no_reply (Inr None) = True"
| "no_reply (Inr (Some text)) = (text = [])"

text \<open>What a greeting step may add to the messages: nothing, or one bot message of the
  conversation.\<close>

definition adds_greeting :: "database \<Rightarrow> nat option \<Rightarrow> database \<Rightarrow> bool" where
  "adds_greeting db c db' =
     (messages db' = messages db
      \<or> (\<exists>b. messages db' = messages db @ [b] \<and> msg_sender_type b = BOT
              \<and> msg_conversation_id b = c))"

text \<open>What a request with a first-contact trigger may add: nothing, the received
  message, or the received customer message followed by the greeting of its
  conversation, which had no bot message before.\<close>

definition inbound_then_greeting :: "database \<Rightarrow> Message list \<Rightarrow> bool" where
  "inbound_then_greeting db new =
     (new = []
      \<or> (\<exists>i. new = [i])
      \<or> (\<exists>i b. new = [i, b] \<and> msg_sender_type i = CUSTOMER \<and> msg_sender_type b = BOT
              \<and> msg_conversation_id b = msg_conversation_id i
              \<and> bot_messages db (msg_conversation_id b) = []))"

text \<open>
  More of the scenario: the same customer writes again, the operator answers from the
  business phone, and the two customer messages as a run of the engine.
\<close>

definition operator_event :: json where
  "operator_event =
     JObj [(''type'', JStr ''SendMessage''),
           (''phone'', JStr ''5511999990000''),
           (''fromMe'', JBool True),
           (''text'', JObj [(''message'', JStr ''Pois nao?'')]),
           (''messageId'', JStr ''S1'')]"

definition operator_normalized :: "(string \<times> json) list" where
  "operator_normalized =
     [(''remote_id'', JStr ''5511999990000@c.us''),
      (''phone'', JStr ''5511999990000''),
      (''sender_name'', JStr ''Cliente''),
      (''content'', JStr ''Pois nao?''),
      (''from_me'', JBool True),
      (''whatsapp_id'', JStr ''S1''),
      (''is_media'', JBool False),
      (''media_url'', JNull)]"

definition second_env :: env where
  "second_env = quiet_env\<lparr>now := 200, now_bot := 205, http := HttpOk (JStr ''BOT2'')\<rparr>"

definition oi_twice :: "(env \<times> request) list" where
  "oi_twice =
     [(quiet_env, ZapiWebhook ''POST'' (Some (oi_event ''A1''))),
      (second_env, ZapiWebhook ''POST'' (Some (oi_event ''A2'')))]"

definition oi_greeting :: Message where
  "oi_greeting =
     \<lparr>msg_id = 2, msg_conversation_id = Some 1, msg_content = Some ''Bom dia!'',
      msg_media_url = None, msg_media_type = None, msg_sender_type = BOT,
      msg_whatsapp_id = Some ''BOT1'', msg_timestamp = 105\<rparr>"

text \<open>The reply generator is down; the provider is down.\<close>

definition chat_down_env :: env where
  "chat_down_env = quiet_env\<lparr>chat_response := Inl ChatError\<rparr>"

definition provider_down_env :: env where
  "provider_down_env = quiet_env\<lparr>http := HttpFailed\<rparr>"

definition oi_stored :: database where
  "oi_stored =
     \<lparr>customers =
        [\<lparr>cust_id = 1, cust_name = Some ''Maria'', cust_phone = Some ''5511999990000'',
          cust_created_at = 100\<rparr>],
      conversations =
        [\<lparr>conv_id = 1, conv_customer_id = 1, conv_order_id = None, conv_status = ''open'',
          conv_created_at = 100, conv_updated_at = 100\<rparr>],
      messages =
        [\<lparr>msg_id = 1, msg_conversation_id = Some 1, msg_content = Some ''Oi'',
          msg_media_url = None, msg_media_type = None, msg_sender_type = CUSTOMER,
          msg_whatsapp_id = Some ''A1'', msg_timestamp = 100\<rparr>]\<rparr>"

text \<open>A websocket text without a sender type, and one whose sender type is unknown.\<close>

definition ws_text_plain :: "(string \<times> json) list" where
  "ws_text_plain = [(''conversation_id'', JInt 1), (''content'', JStr ''Ola'')]"

definition ws_text_unknown :: "(string \<times> json) list" where
  "ws_text_unknown =
     [(''conversation_id'', JInt 1), (''content'', JStr ''Ola''), (''sender_type'', JStr ''admin'')]"

text \<open>The second message arrives while the first request waits for its greeting.\<close>

definition overlap_env :: env where
  "overlap_env = quiet_env\<lparr>now := 102, now_bot := 107, http := HttpOk (JStr ''BOT2'')\<rparr>"

section \<open>Helper lemmas\<close>

lemma dict_get_nonempty: "dict_get n k JNull = JStr w \<Longrightarrow> n \<noteq> []"
  by (auto simp: dict_get_def)

lemma is_objectE: "is_object v \<Longrightarrow> (\<And>d. v = JObj d \<Longrightarrow> P) \<Longrightarrow> P"
  by (cases v) auto

lemma oi_event_normalized:
  "process_webhook get_whatsapp_service (oi_event w) = Inr (JObj (oi_normalized w))"
  by (simp add: get_whatsapp_service_def oi_event_def oi_normalized_def zapi_process_webhook_def
      zapi_event_type_def zapi_status_events_def zapi_message_events_def zapi_is_group_def
      zapi_normalized_def zapi_content_def zapi_media_def dict_get_def has_key_def py_or_def
      py_bind_def py_str_def)

lemma send_each_eq:
  "send_each fails cs message =
     (map (\<lambda>c. (c, message)) (takeWhile (\<lambda>c. \<not> fails c) cs),
      if list_ex fails cs then Inl WebSocketError else Inr ())"
  by (induction cs) auto

lemma broadcast_eq:
  "broadcast manager fails message =
     (manager,
      map (\<lambda>c. (c, message)) (takeWhile (\<lambda>c. \<not> fails c) (active_connections manager)),
      if list_ex fails (active_connections manager) then Inl WebSocketError else Inr ())"
  by (simp add: broadcast_def send_each_eq)

lemma store_reply [simp]: "store (reply db sent status) = db"
  and response_reply [simp]: "response (reply db sent status) = Inr status"
  and store_raise [simp]: "store (raise db sent err) = db"
  and response_raise [simp]: "response (raise db sent err) = Inl err"
  by (simp_all add: reply_def raise_def)

lemma touch_conversation_simps [simp]:
  "messages (touch_conversation db c t) = messages db"
  "customers (touch_conversation db c t) = customers db"
  by (simp_all add: touch_conversation_def)

lemma insert_messageD:
  assumes "insert_message db c content url kind role w t = Inr (db', m)"
  shows "messages db' = messages db @ [m]"
    and "conversations db' = conversations db"
    and "customers db' = customers db"
    and "msg_sender_type m = role"
    and "msg_conversation_id m = c"
    and "msg_whatsapp_id m = w"
    and "msg_timestamp m = t"
    and "msg_content m = content"
  using assms by (auto simp: insert_message_def Let_def split: if_splits)

lemma insert_message_no_id:
  "\<exists>db' m. insert_message db c content url kind role None t = Inr (db', m)"
  by (simp add: insert_message_def Let_def)

lemma resolve_customerD:
  assumes "resolve_customer db n phone from_me t = Inr (db', customer)"
  shows "messages db' = messages db" and "conversations db' = conversations db"
  using assms
  by (auto simp: resolve_customer_def py_bind_def Let_def split: option.splits sum.splits if_splits)

lemma resolve_conversationD:
  assumes "resolve_conversation db customer_id t = (db', conversation)"
  shows "messages db' = messages db" and "customers db' = customers db"
  using assms
  by (auto simp: resolve_conversation_def Let_def split: option.splits)

lemma zapi_store_messageD:
  assumes "zapi_store_message db n phone from_me t = Inr (db', customer, conversation, m)"
  shows "messages db' = messages db @ [m]"
    and "msg_sender_type m = (if from_me then AGENT else CUSTOMER)"
    and "msg_conversation_id m = Some (conv_id conversation)"
    and "msg_timestamp m = t"
proof -
  from assms obtain db1 db2 db3 content url w where
    rc: "resolve_customer db n phone from_me t = Inr (db1, customer)" and
    rv: "resolve_conversation db1 (cust_id customer) t = (db2, conversation)" and
    im: "insert_message db2 (Some (conv_id conversation)) content url
           (if truthy (dict_get n ''is_media'' JNull) then Some ''image'' else None)
           (if from_me then AGENT else CUSTOMER) w t = Inr (db3, m)" and
    db': "db' = touch_conversation db3 (Some (conv_id conversation)) t"
    by (auto simp: zapi_store_message_def py_bind_def split: sum.splits prod.splits)
  from resolve_customerD [OF rc] resolve_conversationD [OF rv] insert_messageD [OF im] db'
  show "messages db' = messages db @ [m]"
    and "msg_sender_type m = (if from_me then AGENT else CUSTOMER)"
    and "msg_conversation_id m = Some (conv_id conversation)"
    and "msg_timestamp m = t"
    by simp_all
qed

lemma evolution_store_messageD:
  assumes "evolution_store_message db n phone t = Inr (db', customer, conversation, m)"
  shows "messages db' = messages db @ [m]"
    and "msg_sender_type m = CUSTOMER"
    and "msg_conversation_id m = Some (conv_id conversation)"
    and "msg_timestamp m = t"
proof -
  from assms obtain db1 db2 db3 content where
    rc: "resolve_customer db n phone False t = Inr (db1, customer)" and
    rv: "resolve_conversation db1 (cust_id customer) t = (db2, conversation)" and
    im: "insert_message db2 (Some (conv_id conversation)) content None None CUSTOMER None t
           = Inr (db3, m)" and
    db': "db' = touch_conversation db3 (Some (conv_id conversation)) t"
    by (auto simp: evolution_store_message_def py_bind_def split: sum.splits prod.splits)
  from resolve_customerD [OF rc] resolve_conversationD [OF rv] insert_messageD [OF im] db'
  show "messages db' = messages db @ [m]"
    and "msg_sender_type m = CUSTOMER"
    and "msg_conversation_id m = Some (conv_id conversation)"
    and "msg_timestamp m = t"
    by simp_all
qed

lemma ws_store_messageD:
  assumes "ws_store_message db md t = Inr (db', m)"
  shows "messages db' = messages db @ [m]"
    and "msg_sender_type m = ws_sender_type md"
    and "msg_timestamp m = t"
  using assms
  by (auto simp: ws_store_message_def py_bind_def split: sum.splits prod.splits
      dest: insert_messageD)

lemma adds_greeting_refl [simp]: "adds_greeting db c db"
  by (simp add: adds_greeting_def)

lemma zapi_greet_adds:
  "adds_greeting db (Some (conv_id conversation)) (fst (zapi_greet manager e db conversation p))"
  by (auto simp: zapi_greet_def adds_greeting_def py_bind_def Let_def broadcast_eq
      split: sum.splits option.splits prod.splits dest: insert_messageD)

lemma store_ws_except [simp]: "store (ws_except manager e db sent client_id err) = db"
  by (simp add: ws_except_def broadcast_eq)

lemma evolution_greet_adds:
  "adds_greeting db (Some (conv_id conversation))
     (store (evolution_greet manager e db sent conversation p))"
  by (auto simp: evolution_greet_def adds_greeting_def broadcast_eq
      split: sum.splits option.splits prod.splits dest: insert_messageD)

lemma ws_greet_adds:
  "adds_greeting db (msg_conversation_id m) (store (ws_greet manager e db sent client_id m))"
  by (auto simp: ws_greet_def adds_greeting_def broadcast_eq Let_def
      split: sum.splits option.splits prod.splits dest: insert_messageD)

lemma bot_messages_append:
  "messages db' = messages db @ new \<Longrightarrow>
   bot_messages db' c = bot_messages db c
     @ filter (\<lambda>m. msg_conversation_id m = c \<and> msg_sender_type m = BOT) new"
  by (simp add: bot_messages_def)

text \<open>Where a request can leave the tables.\<close>

lemma zapi_pipeline_cases [case_names unchanged stored greeted]:
  assumes "store (zapi_pipeline manager e db n) = db \<Longrightarrow> P"
    and "\<And>p db1 cu cv m.
          zapi_store_message db n p (truthy (dict_get n ''from_me'' (JBool False))) (now e)
            = Inr (db1, cu, cv, m) \<Longrightarrow>
          store (zapi_pipeline manager e db n) = db1 \<Longrightarrow> P"
    and "\<And>p db1 cu cv m.
          zapi_store_message db n p False (now e) = Inr (db1, cu, cv, m) \<Longrightarrow>
          \<not> truthy (dict_get n ''from_me'' (JBool False)) \<Longrightarrow>
          bot_messages db1 (Some (conv_id cv)) = [] \<Longrightarrow>
          store (zapi_pipeline manager e db n) = fst (zapi_greet manager e db1 cv p) \<Longrightarrow> P"
  shows P
proof (cases "\<exists>p db1 cu cv m. zapi_dedup db (dict_get n ''whatsapp_id'' JNull) = Inr False
      \<and> zapi_phone n = Inr (JStr p) \<and> p \<noteq> []
      \<and> zapi_store_message db n p (truthy (dict_get n ''from_me'' (JBool False))) (now e)
          = Inr (db1, cu, cv, m)")
  case False
  then have "store (zapi_pipeline manager e db n) = db"
    by (auto simp: zapi_pipeline_def Let_def split: sum.splits bool.splits json.splits)
  then show P by (rule assms(1))
next
  case True
  then obtain p db1 cu cv m where
    d: "zapi_dedup db (dict_get n ''whatsapp_id'' JNull) = Inr False" and
    ph: "zapi_phone n = Inr (JStr p)" "p \<noteq> []" and
    st: "zapi_store_message db n p (truthy (dict_get n ''from_me'' (JBool False))) (now e)
           = Inr (db1, cu, cv, m)"
    by blast
  show P
  proof (cases "list_ex (send_fails e) (active_connections manager)
      \<or> truthy (dict_get n ''from_me'' (JBool False))
      \<or> bot_messages db1 (Some (conv_id cv)) \<noteq> []")
    case True
    then have "store (zapi_pipeline manager e db n) = db1"
      using d ph st by (auto simp: zapi_pipeline_def Let_def broadcast_eq)
    with st show P by (rule assms(2))
  next
    case False
    then have "store (zapi_pipeline manager e db n) = fst (zapi_greet manager e db1 cv p)"
      using d ph st by (auto simp: zapi_pipeline_def Let_def broadcast_eq split: prod.splits)
    with False st show P by (auto intro: assms(3))
  qed
qed

lemma zapi_webhook_cases [case_names unchanged pipeline]:
  assumes "store (zapi_webhook manager e db method body) = db \<Longrightarrow> P"
    and "\<And>n. store (zapi_webhook manager e db method body)
            = store (zapi_pipeline manager e db n) \<Longrightarrow> P"
  shows P
proof (cases "\<exists>n. store (zapi_webhook manager e db method body)
    = store (zapi_pipeline manager e db n)")
  case True
  then show P using assms(2) by blast
next
  case False
  then have "store (zapi_webhook manager e db method body) = db"
    by (auto simp: zapi_webhook_def split: option.splits sum.splits json.splits if_splits)
  then show P by (rule assms(1))
qed

lemma evolution_pipeline_cases [case_names unchanged stored greeted]:
  assumes "store (evolution_pipeline manager e db n) = db \<Longrightarrow> P"
    and "\<And>p db1 cu cv m.
          evolution_store_message db n p (now e) = Inr (db1, cu, cv, m) \<Longrightarrow>
          store (evolution_pipeline manager e db n) = db1 \<Longrightarrow> P"
    and "\<And>p db1 cu cv m sent.
          evolution_store_message db n p (now e) = Inr (db1, cu, cv, m) \<Longrightarrow>
          bot_messages db1 (Some (conv_id cv)) = [] \<Longrightarrow>
          store (evolution_pipeline manager e db n)
            = store (evolution_greet manager e db1 sent cv p) \<Longrightarrow> P"
  shows P
proof (cases "\<exists>r db1 cu cv m. dict_get n ''remote_id'' JNull = JStr r
      \<and> evolution_store_message db n (before_at r) (now e) = Inr (db1, cu, cv, m)")
  case False
  then have "store (evolution_pipeline manager e db n) = db"
    by (auto simp: evolution_pipeline_def Let_def split: sum.splits json.splits)
  then show P by (rule assms(1))
next
  case True
  then obtain r db1 cu cv m where
    r: "dict_get n ''remote_id'' JNull = JStr r" and
    st: "evolution_store_message db n (before_at r) (now e) = Inr (db1, cu, cv, m)"
    by blast
  show P
  proof (cases "list_ex (send_fails e) (active_connections manager)
      \<or> bot_messages db1 (Some (conv_id cv)) \<noteq> []")
    case True
    then have "store (evolution_pipeline manager e db n) = db1"
      using r st by (auto simp: evolution_pipeline_def Let_def broadcast_eq)
    with st show P by (rule assms(2))
  next
    case False
    then have "\<exists>sent. store (evolution_pipeline manager e db n)
        = store (evolution_greet manager e db1 sent cv (before_at r))"
      using r st by (auto simp: evolution_pipeline_def Let_def broadcast_eq)
    with False st show P by (auto intro: assms(3))
  qed
qed

lemma evolution_webhook_cases [case_names unchanged pipeline]:
  assumes "store (evolution_webhook manager e db data) = db \<Longrightarrow> P"
    and "\<And>n. store (evolution_webhook manager e db data)
            = store (evolution_pipeline manager e db n) \<Longrightarrow> P"
  shows P
proof (cases "\<exists>n. store (evolution_webhook manager e db data)
    = store (evolution_pipeline manager e db n)")
  case True
  then show P using assms(2) by blast
next
  case False
  then have "store (evolution_webhook manager e db data) = db"
    by (auto simp: evolution_webhook_def split: option.splits sum.splits json.splits if_splits)
  then show P by (rule assms(1))
qed

lemma websocket_receive_cases [case_names unchanged stored greeted]:
  assumes "store (websocket_receive manager e db client_id body) = db \<Longrightarrow> P"
    and "\<And>md db1 m.
          ws_store_message db md (now e) = Inr (db1, m) \<Longrightarrow>
          store (websocket_receive manager e db client_id body) = db1 \<Longrightarrow> P"
    and "\<And>md db1 m sent.
          ws_store_message db md (now e) = Inr (db1, m) \<Longrightarrow>
          msg_sender_type m = CUSTOMER \<Longrightarrow>
          bot_messages db1 (msg_conversation_id m) = [] \<Longrightarrow>
          store (websocket_receive manager e db client_id body)
            = store (ws_greet manager e db1 sent client_id m) \<Longrightarrow> P"
  shows P
proof (cases "\<exists>md db1 m. body = Some (JObj md) \<and> ws_store_message db md (now e) = Inr (db1, m)")
  case False
  then have "store (websocket_receive manager e db client_id body) = db"
    by (auto simp: websocket_receive_def split: option.splits sum.splits json.splits)
  then show P by (rule assms(1))
next
  case True
  then obtain md db1 m where
    b: "body = Some (JObj md)" and st: "ws_store_message db md (now e) = Inr (db1, m)"
    by blast
  show P
  proof (cases "list_ex (send_fails e) (active_connections manager)
      \<or> msg_sender_type m \<noteq> CUSTOMER \<or> bot_messages db1 (msg_conversation_id m) \<noteq> []")
    case True
    then have "store (websocket_receive manager e db client_id body) = db1"
      using b st by (auto simp: websocket_receive_def broadcast_eq)
    with st show P by (rule assms(2))
  next
    case False
    then have "\<exists>sent. store (websocket_receive manager e db client_id body)
        = store (ws_greet manager e db1 sent client_id m)"
      using b st by (auto simp: websocket_receive_def broadcast_eq)
    with False st show P by (auto intro: assms(3))
  qed
qed

text \<open>What a request adds to the messages.\<close>

lemma zapi_webhook_shape:
  "\<exists>new. messages (store (zapi_webhook manager e db method body)) = messages db @ new
     \<and> inbound_then_greeting db new
     \<and> (\<forall>i. new = [i] \<longrightarrow> msg_sender_type i \<noteq> BOT)"
proof (cases rule: zapi_webhook_cases [of manager e db "method" body])
  case unchanged
  then show ?thesis by (simp add: inbound_then_greeting_def)
next
  case (pipeline n)
  show ?thesis
  proof (cases rule: zapi_pipeline_cases [of manager e db n])
    case unchanged
    with pipeline show ?thesis by (simp add: inbound_then_greeting_def)
  next
    case (stored p db1 cu cv m)
    with pipeline zapi_store_messageD [OF stored(1)] show ?thesis
      by (auto simp: inbound_then_greeting_def)
  next
    case (greeted p db1 cu cv m)
    note m = zapi_store_messageD [OF greeted(1)]
    from greeted(3) have "bot_messages db (Some (conv_id cv)) = []"
      using bot_messages_append [OF m(1), of "Some (conv_id cv)"] by simp
    with zapi_greet_adds [of db1 cv manager e p] pipeline greeted(4) m show ?thesis
      by (auto simp: adds_greeting_def inbound_then_greeting_def)
  qed
qed

lemma evolution_webhook_shape:
  "\<exists>new. messages (store (evolution_webhook manager e db data)) = messages db @ new
     \<and> inbound_then_greeting db new
     \<and> (\<forall>i. new = [i] \<longrightarrow> msg_sender_type i \<noteq> BOT)"
proof (cases rule: evolution_webhook_cases [of manager e db data])
  case unchanged
  then show ?thesis by (simp add: inbound_then_greeting_def)
next
  case (pipeline n)
  show ?thesis
  proof (cases rule: evolution_pipeline_cases [of manager e db n])
    case unchanged
    with pipeline show ?thesis by (simp add: inbound_then_greeting_def)
  next
    case (stored p db1 cu cv m)
    with pipeline evolution_store_messageD [OF stored(1)] show ?thesis
      by (auto simp: inbound_then_greeting_def)
  next
    case (greeted p db1 cu cv m sent)
    note m = evolution_store_messageD [OF greeted(1)]
    from greeted(2) have "bot_messages db (Some (conv_id cv)) = []"
      using bot_messages_append [OF m(1), of "Some (conv_id cv)"] by simp
    with evolution_greet_adds [of db1 cv manager e sent p] pipeline greeted(3) m show ?thesis
      by (auto simp: adds_greeting_def inbound_then_greeting_def)
  qed
qed

lemma websocket_receive_shape:
  "\<exists>new. messages (store (websocket_receive manager e db client_id body)) = messages db @ new
     \<and> inbound_then_greeting db new"
proof (cases rule: websocket_receive_cases [of manager e db client_id body])
  case unchanged
  then show ?thesis by (simp add: inbound_then_greeting_def)
next
  case (stored md db1 m)
  with ws_store_messageD [OF stored(1)] show ?thesis
    by (auto simp: inbound_then_greeting_def)
next
  case (greeted md db1 m sent)
  note m = ws_store_messageD [OF greeted(1)]
  from greeted(3) have "bot_messages db (msg_conversation_id m) = []"
    using bot_messages_append [OF m(1), of "msg_conversation_id m"] by simp
  with ws_greet_adds [of db1 m manager e sent client_id] greeted(2,4) m show ?thesis
    by (auto simp: adds_greeting_def inbound_then_greeting_def)
qed

lemma encarte_conversationD:
  assumes "encarte_conversation db customer_id t = (db', conversation)"
  shows "messages db' = messages db" and "customers db' = customers db"
  using assms by (auto simp: encarte_conversation_def Let_def split: option.splits)

lemma encarte_loop_appends:
  "encarte_loop db content media t cs = Inr (db', sent_to) \<Longrightarrow>
   \<exists>new. messages db' = messages db @ new"
proof (induction cs arbitrary: db db' sent_to)
  case Nil
  then show ?case by simp
next
  case (Cons c cs)
  from Cons.prems obtain db1 cv db2 m db3 rest where
    ec: "encarte_conversation db (cust_id c) t = (db1, cv)" and
    im: "insert_message db1 (Some (conv_id cv)) (Some content) (map_option fst media)
           (map_option snd media) BOT None t = Inr (db2, m)" and
    rec: "encarte_loop db2 content media t cs = Inr (db3, rest)" and
    db': "db' = db3"
    by (auto simp: py_bind_def split: prod.splits sum.splits)
  from Cons.IH [OF rec] obtain new where "messages db3 = messages db2 @ new" ..
  with encarte_conversationD [OF ec] insert_messageD [OF im] db'
  show ?case by simp
qed

lemma handle_appends: "\<exists>new. messages (handle manager db r) = messages db @ new"
proof (cases r)
  case (Pair e q)
  show ?thesis
  proof (cases q)
    case (ZapiWebhook verb body)
    with Pair zapi_webhook_shape [of manager e db verb body] show ?thesis by auto
  next
    case (EvolutionWebhook data)
    with Pair evolution_webhook_shape [of manager e db data] show ?thesis by auto
  next
    case (WebsocketText client_id body)
    with Pair websocket_receive_shape [of manager e db client_id body] show ?thesis by auto
  next
    case (BroadcastEncarte content media ids)
    with Pair show ?thesis
      by (auto simp: broadcast_encarte_def split: sum.splits dest: encarte_loop_appends)
  next
    case (CreateConversation c s ord)
    with Pair show ?thesis
      by (auto simp: create_conversation_def Let_def split: sum.splits if_splits)
  qed
qed

lemma new_messages_append [simp]:
  "messages db' = messages db @ new \<Longrightarrow> new_messages db db' = new"
  by (simp add: new_messages_def)

lemma greetings_gated:
  assumes "g \<in> set (greetings manager db r)"
  shows "\<exists>i. new_messages db (handle manager db r) = [i, g]
           \<and> msg_sender_type i = CUSTOMER \<and> msg_sender_type g = BOT
           \<and> msg_conversation_id g = msg_conversation_id i
           \<and> bot_messages db (msg_conversation_id g) = []"
proof (cases r)
  case (Pair e q)
  show ?thesis
  proof (cases q)
    case (ZapiWebhook verb body)
    from zapi_webhook_shape [of manager e db verb body] obtain new where
      "messages (store (zapi_webhook manager e db verb body)) = messages db @ new"
      "inbound_then_greeting db new" "\<forall>i. new = [i] \<longrightarrow> msg_sender_type i \<noteq> BOT"
      by blast
    with assms Pair ZapiWebhook show ?thesis
      by (auto simp: inbound_then_greeting_def)
  next
    case (EvolutionWebhook data)
    from evolution_webhook_shape [of manager e db data] obtain new where
      "messages (store (evolution_webhook manager e db data)) = messages db @ new"
      "inbound_then_greeting db new" "\<forall>i. new = [i] \<longrightarrow> msg_sender_type i \<noteq> BOT"
      by blast
    with assms Pair EvolutionWebhook show ?thesis
      by (auto simp: inbound_then_greeting_def)
  next
    case (WebsocketText client_id body)
    from websocket_receive_shape [of manager e db client_id body] obtain new where
      "messages (store (websocket_receive manager e db client_id body)) = messages db @ new"
      "inbound_then_greeting db new"
      by blast
    with assms Pair WebsocketText show ?thesis
      by (auto simp: inbound_then_greeting_def)
  next
    case (BroadcastEncarte content media ids)
    with assms Pair show ?thesis by simp
  next
    case (CreateConversation c s ord)
    with assms Pair show ?thesis by simp
  qed
qed

lemma greetings_at_most_one: "length (greetings manager db r) \<le> 1"
proof (cases r)
  case (Pair e q)
  show ?thesis
  proof (cases q)
    case (ZapiWebhook verb body)
    from zapi_webhook_shape [of manager e db verb body] obtain new where
      "messages (store (zapi_webhook manager e db verb body)) = messages db @ new"
      "inbound_then_greeting db new" "\<forall>i. new = [i] \<longrightarrow> msg_sender_type i \<noteq> BOT"
      by blast
    with Pair ZapiWebhook show ?thesis
      by (auto simp: inbound_then_greeting_def)
  next
    case (EvolutionWebhook data)
    from evolution_webhook_shape [of manager e db data] obtain new where
      "messages (store (evolution_webhook manager e db data)) = messages db @ new"
      "inbound_then_greeting db new" "\<forall>i. new = [i] \<longrightarrow> msg_sender_type i \<noteq> BOT"
      by blast
    with Pair EvolutionWebhook show ?thesis
      by (auto simp: inbound_then_greeting_def)
  next
    case (WebsocketText client_id body)
    from websocket_receive_shape [of manager e db client_id body] obtain new where
      "messages (store (websocket_receive manager e db client_id body)) = messages db @ new"
      "inbound_then_greeting db new"
      by blast
    with Pair WebsocketText show ?thesis
      by (auto simp: inbound_then_greeting_def)
  next
    case (BroadcastEncarte content media ids)
    with Pair show ?thesis by simp
  next
    case (CreateConversation c s ord)
    with Pair show ?thesis by simp
  qed
qed

lemma greeting_is_stored:
  assumes "g \<in> set (greetings manager db r)"
  shows "bot_messages (handle manager db r) (msg_conversation_id g) \<noteq> []"
proof -
  from greetings_gated [OF assms] obtain i where
    n: "new_messages db (handle manager db r) = [i, g]" and b: "msg_sender_type g = BOT"
    by blast
  from handle_appends [of manager db r] obtain new where
    a: "messages (handle manager db r) = messages db @ new" ..
  with n have "new = [i, g]" by simp
  with a b show ?thesis by (simp add: bot_messages_def)
qed

lemma bot_messages_kept:
  assumes "bot_messages db c \<noteq> []"
  shows "bot_messages (handle manager db r) c \<noteq> []"
proof -
  from handle_appends [of manager db r] obtain new where
    "messages (handle manager db r) = messages db @ new" ..
  from bot_messages_append [OF this, of c] assms show ?thesis by simp
qed

lemma run_greetings_gated:
  "g \<in> set (run_greetings manager db rs) \<Longrightarrow> bot_messages db (msg_conversation_id g) = []"
proof (induction rs arbitrary: db)
  case Nil
  then show ?case by simp
next
  case (Cons r rs)
  from Cons.prems consider "g \<in> set (greetings manager db r)"
    | "g \<in> set (run_greetings manager (handle manager db r) rs)" by auto
  then show ?case
  proof cases
    case 1
    with greetings_gated show ?thesis by blast
  next
    case 2
    from Cons.IH [OF 2] bot_messages_kept [of db "msg_conversation_id g" manager r]
    show ?thesis by blast
  qed
qed

lemma run_greetings_once:
  "length (filter (\<lambda>g. msg_conversation_id g = c) (run_greetings manager db rs)) \<le> 1"
proof (induction rs arbitrary: db)
  case Nil
  then show ?case by simp
next
  case (Cons r rs)
  let ?P = "\<lambda>g. msg_conversation_id g = c"
  show ?case
  proof (cases "filter ?P (greetings manager db r) = []")
    case True
    with Cons.IH [of "handle manager db r"] show ?thesis by simp
  next
    case False
    then obtain g where g: "g \<in> set (greetings manager db r)" "msg_conversation_id g = c"
      by (auto simp: filter_empty_conv)
    from greeting_is_stored [OF g(1)] g(2)
    have stored: "bot_messages (handle manager db r) c \<noteq> []" by simp
    have "filter ?P (run_greetings manager (handle manager db r) rs) = []"
      using run_greetings_gated [of _ manager "handle manager db r" rs] stored
      by (auto simp: filter_empty_conv)
    moreover have "length (filter ?P (greetings manager db r)) \<le> 1"
      using greetings_at_most_one [of manager db r]
      by (meson le_trans length_filter_le)
    ultimately show ?thesis by simp
  qed
qed

text \<open>Operator-authored events; the greeting step by what the collaborators answer.\<close>

lemma operator_event_normalized:
  "process_webhook get_whatsapp_service operator_event = Inr (JObj operator_normalized)"
  by code_simp

lemma zapi_from_me_no_greeting:
  assumes "process_webhook get_whatsapp_service data = Inr (JObj n)"
    and "truthy (dict_get n ''from_me'' (JBool False))"
  shows "greetings manager db (e, ZapiWebhook verb (Some data)) = []"
proof (cases "verb = ''GET'' \<or> n = []")
  case True
  with assms(1) have "store (zapi_webhook manager e db verb (Some data)) = db"
    by (auto simp: zapi_webhook_def)
  then show ?thesis by (simp add: new_messages_def)
next
  case False
  with assms(1) have s: "store (zapi_webhook manager e db verb (Some data))
      = store (zapi_pipeline manager e db n)"
    by (simp add: zapi_webhook_def)
  show ?thesis
  proof (cases rule: zapi_pipeline_cases [of manager e db n])
    case unchanged
    with s show ?thesis by (simp add: new_messages_def)
  next
    case (stored p db1 cu cv m)
    with s assms(2) zapi_store_messageD [OF stored(1)] show ?thesis by simp
  next
    case (greeted p db1 cu cv m)
    with assms(2) show ?thesis by simp
  qed
qed

lemma evolution_from_me_no_greeting:
  assumes "process_webhook get_whatsapp_service data = Inr (JObj n)"
    and "truthy (dict_get n ''from_me'' (JBool False))"
  shows "greetings manager db (e, EvolutionWebhook data) = []"
proof -
  from assms(2) have "truthy (dict_get n ''from_me'' JNull)"
    by (auto simp: dict_get_def split: option.splits)
  with assms(1) have "store (evolution_webhook manager e db data) = db"
    by (auto simp: evolution_webhook_def)
  then show ?thesis by (simp add: new_messages_def)
qed

lemma zapi_greet_no_reply:
  "no_reply (chat_response e) \<Longrightarrow> zapi_greet manager e db conversation p = (db, [])"
  by (cases "chat_response e" rule: no_reply.cases) (auto simp: zapi_greet_def)

lemma zapi_greet_undelivered:
  assumes "chat_response e = Inr (Some answer)" and "answer \<noteq> []"
    and "http e = HttpRejected \<or> http e = HttpFailed"
  shows "\<exists>b. messages (fst (zapi_greet manager e db conversation p)) = messages db @ [b]
           \<and> msg_sender_type b = BOT \<and> msg_conversation_id b = Some (conv_id conversation)
           \<and> msg_content b = Some answer \<and> msg_whatsapp_id b = None"
  using assms
  by (auto simp: zapi_greet_def get_whatsapp_service_def py_bind_def insert_message_def Let_def
      broadcast_eq)

lemma zapi_greet_delivered:
  assumes "chat_response e = Inr (Some answer)" and "answer \<noteq> []"
    and "http e = HttpOk (JStr w)" and "Some w \<notin> set (map msg_whatsapp_id (messages db))"
  shows "\<exists>b. messages (fst (zapi_greet manager e db conversation p)) = messages db @ [b]
           \<and> msg_sender_type b = BOT \<and> msg_conversation_id b = Some (conv_id conversation)
           \<and> msg_content b = Some answer \<and> msg_whatsapp_id b = Some w"
  using assms
  by (auto simp: zapi_greet_def get_whatsapp_service_def py_bind_def insert_message_def Let_def
      broadcast_eq)

lemma zapi_pipeline_greets:
  assumes "zapi_dedup db (dict_get n ''whatsapp_id'' JNull) = Inr False"
    and "zapi_phone n = Inr (JStr p)" and "p \<noteq> []"
    and "\<not> truthy (dict_get n ''from_me'' (JBool False))"
    and "zapi_store_message db n p False (now e) = Inr (db1, customer, conversation, db_message)"
    and "bot_messages db1 (Some (conv_id conversation)) = []"
    and "\<not> list_ex (send_fails e) (active_connections manager)"
  shows "store (zapi_pipeline manager e db n) = fst (zapi_greet manager e db1 conversation p)"
    and "response (zapi_pipeline manager e db n) = Inr ''success''"
  using assms
  by (auto simp: zapi_pipeline_def Let_def broadcast_eq split: prod.splits)

text \<open>The requests keep at most one open conversation for each customer.\<close>

lemma one_open_cong:
  "conversations db' = conversations db \<Longrightarrow>
   one_open_conversation db' = one_open_conversation db"
  by (simp add: one_open_conversation_def open_conversations_def)

lemma open_conversations_touch:
  "length (open_conversations (touch_conversation db c t) customer_id)
     = length (open_conversations db customer_id)"
proof -
  have same: "(\<lambda>v. conv_customer_id v = customer_id \<and> conv_status v = ''open'')
       \<circ> (\<lambda>v. if Some (conv_id v) = c then v\<lparr>conv_updated_at := t\<rparr> else v)
     = (\<lambda>v. conv_customer_id v = customer_id \<and> conv_status v = ''open'')"
    by (auto simp: fun_eq_iff)
  show ?thesis
    unfolding open_conversations_def touch_conversation_def
    by (simp add: filter_map same)
qed

lemma one_open_touch [simp]:
  "one_open_conversation (touch_conversation db c t) = one_open_conversation db"
  by (simp add: one_open_conversation_def open_conversations_touch)

lemma resolve_conversation_one_open:
  assumes "resolve_conversation db customer_id t = (db', conversation)"
    and "one_open_conversation db"
  shows "one_open_conversation db'"
proof (cases "find_open_conversation db customer_id")
  case (Some v)
  with assms show ?thesis by (simp add: resolve_conversation_def)
next
  case None
  then have none: "open_conversations db customer_id = []"
    by (auto simp: find_open_conversation_def open_conversations_def find_None_iff
        filter_empty_conv)
  from None assms(1) obtain v where
    db': "conversations db' = conversations db @ [v]" and
    v: "conv_customer_id v = customer_id" "conv_status v = ''open''"
    by (auto simp: resolve_conversation_def Let_def)
  show ?thesis
    unfolding one_open_conversation_def
  proof
    fix c
    show "length (open_conversations db' c) \<le> 1"
      using assms(2) none db' v
      by (cases "c = customer_id")
        (auto simp: open_conversations_def one_open_conversation_def)
  qed
qed

lemma latest_None: "latest vs = None \<longleftrightarrow> vs = []"
  by (induction vs) (auto split: option.splits)

lemma encarte_conversation_one_open:
  assumes "encarte_conversation db customer_id t = (db', conversation)"
    and "one_open_conversation db"
  shows "one_open_conversation db'"
proof (cases "open_conversations db customer_id = []")
  case False
  then have "latest (open_conversations db customer_id) \<noteq> None"
    by (simp add: latest_None)
  with assms show ?thesis
    by (auto simp: encarte_conversation_def open_conversations_def)
next
  case True
  with assms(1) obtain v where
    db': "conversations db' = conversations db @ [v]" and
    v: "conv_customer_id v = customer_id" "conv_status v = ''open''"
    by (auto simp: encarte_conversation_def open_conversations_def Let_def)
  show ?thesis
    unfolding one_open_conversation_def
  proof
    fix c
    show "length (open_conversations db' c) \<le> 1"
      using assms(2) True db' v
      by (cases "c = customer_id")
        (auto simp: open_conversations_def one_open_conversation_def)
  qed
qed

lemma zapi_store_message_one_open:
  assumes "zapi_store_message db n phone from_me t = Inr (db', customer, conversation, m)"
    and "one_open_conversation db"
  shows "one_open_conversation db'"
proof -
  from assms(1) obtain db1 db2 db3 content url w where
    rc: "resolve_customer db n phone from_me t = Inr (db1, customer)" and
    rv: "resolve_conversation db1 (cust_id customer) t = (db2, conversation)" and
    im: "insert_message db2 (Some (conv_id conversation)) content url
           (if truthy (dict_get n ''is_media'' JNull) then Some ''image'' else None)
           (if from_me then AGENT else CUSTOMER) w t = Inr (db3, m)" and
    db': "db' = touch_conversation db3 (Some (conv_id conversation)) t"
    by (auto simp: zapi_store_message_def py_bind_def split: sum.splits prod.splits)
  from assms(2) one_open_cong [OF resolve_customerD(2) [OF rc]]
  have "one_open_conversation db1" by simp
  with rv have "one_open_conversation db2" by (rule resolve_conversation_one_open)
  with one_open_cong [OF insert_messageD(2) [OF im]]
  have "one_open_conversation db3" by simp
  with db' show ?thesis by simp
qed

lemma evolution_store_message_one_open:
  assumes "evolution_store_message db n phone t = Inr (db', customer, conversation, m)"
    and "one_open_conversation db"
  shows "one_open_conversation db'"
proof -
  from assms(1) obtain db1 db2 db3 content where
    rc: "resolve_customer db n phone False t = Inr (db1, customer)" and
    rv: "resolve_conversation db1 (cust_id customer) t = (db2, conversation)" and
    im: "insert_message db2 (Some (conv_id conversation)) content None None CUSTOMER None t
           = Inr (db3, m)" and
    db': "db' = touch_conversation db3 (Some (conv_id conversation)) t"
    by (auto simp: evolution_store_message_def py_bind_def split: sum.splits prod.splits)
  from assms(2) one_open_cong [OF resolve_customerD(2) [OF rc]]
  have "one_open_conversation db1" by simp
  with rv have "one_open_conversation db2" by (rule resolve_conversation_one_open)
  with one_open_cong [OF insert_messageD(2) [OF im]]
  have "one_open_conversation db3" by simp
  with db' show ?thesis by simp
qed

lemma ws_store_message_one_open:
  assumes "ws_store_message db md t = Inr (db', m)"
  shows "one_open_conversation db' = one_open_conversation db"
proof -
  from assms obtain c content db1 where
    im: "insert_message db c content None None (ws_sender_type md) None t = Inr (db1, m)" and
    db': "db' = touch_conversation db1 c t"
    by (auto simp: ws_store_message_def py_bind_def split: sum.splits prod.splits)
  from one_open_cong [OF insert_messageD(2) [OF im]] db' show ?thesis
    by simp
qed

lemma zapi_greet_conversations:
  "conversations (fst (zapi_greet manager e db conversation p)) = conversations db"
  by (auto simp: zapi_greet_def py_bind_def Let_def broadcast_eq
      split: sum.splits option.splits prod.splits dest: insert_messageD(2))

lemma zapi_greet_one_open:
  "one_open_conversation (fst (zapi_greet manager e db conversation p))
     = one_open_conversation db"
  by (rule one_open_cong) (rule zapi_greet_conversations)

lemma evolution_greet_conversations:
  "conversations (store (evolution_greet manager e db sent conversation p)) = conversations db"
  by (auto simp: evolution_greet_def broadcast_eq
      split: sum.splits option.splits prod.splits dest: insert_messageD(2))

lemma evolution_greet_one_open:
  "one_open_conversation (store (evolution_greet manager e db sent conversation p))
     = one_open_conversation db"
  by (rule one_open_cong) (rule evolution_greet_conversations)

lemma ws_greet_one_open:
  "one_open_conversation (store (ws_greet manager e db sent client_id m))
     = one_open_conversation db"
proof (cases "chat_response e")
  case (Inl err)
  then show ?thesis by (simp add: ws_greet_def)
next
  case (Inr bot_content)
  from insert_message_no_id obtain db1 b where
    im: "insert_message db (msg_conversation_id m) bot_content None None BOT None (now_bot e)
           = Inr (db1, b)"
    by blast
  with Inr have "store (ws_greet manager e db sent client_id m)
      = touch_conversation db1 (msg_conversation_id m) (now_bot e)"
    by (simp add: ws_greet_def Let_def broadcast_eq)
  with one_open_cong [OF insert_messageD(2) [OF im]] show ?thesis
    by simp
qed

lemma zapi_webhook_one_open:
  assumes "one_open_conversation db"
  shows "one_open_conversation (store (zapi_webhook manager e db verb body))"
proof (cases rule: zapi_webhook_cases [of manager e db verb body])
  case unchanged
  with assms show ?thesis by simp
next
  case (pipeline n)
  show ?thesis
  proof (cases rule: zapi_pipeline_cases [of manager e db n])
    case unchanged
    with pipeline assms show ?thesis by simp
  next
    case (stored p db1 cu cv m)
    with pipeline zapi_store_message_one_open [OF stored(1) assms] show ?thesis by simp
  next
    case (greeted p db1 cu cv m)
    with pipeline zapi_store_message_one_open [OF greeted(1) assms] show ?thesis
      by (simp add: zapi_greet_one_open)
  qed
qed

lemma evolution_webhook_one_open:
  assumes "one_open_conversation db"
  shows "one_open_conversation (store (evolution_webhook manager e db data))"
proof (cases rule: evolution_webhook_cases [of manager e db data])
  case unchanged
  with assms show ?thesis by simp
next
  case (pipeline n)
  show ?thesis
  proof (cases rule: evolution_pipeline_cases [of manager e db n])
    case unchanged
    with pipeline assms show ?thesis by simp
  next
    case (stored p db1 cu cv m)
    with pipeline evolution_store_message_one_open [OF stored(1) assms] show ?thesis by simp
  next
    case (greeted p db1 cu cv m sent)
    with pipeline evolution_store_message_one_open [OF greeted(1) assms] show ?thesis
      by (simp add: evolution_greet_one_open)
  qed
qed

lemma websocket_receive_one_open:
  assumes "one_open_conversation db"
  shows "one_open_conversation (store (websocket_receive manager e db client_id body))"
proof (cases rule: websocket_receive_cases [of manager e db client_id body])
  case unchanged
  with assms show ?thesis by simp
next
  case (stored md db1 m)
  with ws_store_message_one_open [OF stored(1)] assms show ?thesis by simp
next
  case (greeted md db1 m sent)
  with ws_store_message_one_open [OF greeted(1)] assms show ?thesis
    by (simp add: ws_greet_one_open)
qed

lemma encarte_loop_one_open:
  "encarte_loop db content media t cs = Inr (db', sent_to) \<Longrightarrow>
   one_open_conversation db \<Longrightarrow> one_open_conversation db'"
proof (induction cs arbitrary: db db' sent_to)
  case Nil
  then show ?case by simp
next
  case (Cons c cs)
  from Cons.prems(1) obtain db1 cv db2 m db3 rest where
    ec: "encarte_conversation db (cust_id c) t = (db1, cv)" and
    im: "insert_message db1 (Some (conv_id cv)) (Some content) (map_option fst media)
           (map_option snd media) BOT None t = Inr (db2, m)" and
    rec: "encarte_loop db2 content media t cs = Inr (db3, rest)" and
    db': "db' = db3"
    by (auto simp: py_bind_def split: prod.splits sum.splits)
  from ec Cons.prems(2) have "one_open_conversation db1"
    by (rule encarte_conversation_one_open)
  with one_open_cong [OF insert_messageD(2) [OF im]]
  have "one_open_conversation db2" by simp
  with Cons.IH [OF rec] db' show ?case by simp
qed

lemma create_conversation_one_open:
  assumes "create_conversation db customer_id status order_id t = Inr (db', conversation)"
    and "one_open_conversation db"
    and "status \<noteq> ''open'' \<or> open_conversations db customer_id = []"
  shows "one_open_conversation db'"
proof -
  from assms(1) obtain v where
    db': "conversations db' = conversations db @ [v]" and
    v: "conv_customer_id v = customer_id" "conv_status v = status"
    by (auto simp: create_conversation_def Let_def split: if_splits)
  show ?thesis
    unfolding one_open_conversation_def
  proof
    fix c
    show "length (open_conversations db' c) \<le> 1"
      using assms(2,3) db' v
      by (cases "c = customer_id")
        (auto simp: open_conversations_def one_open_conversation_def)
  qed
qed

text \<open>What the websocket endpoint stores.\<close>

lemma ws_sender_type_default:
  assumes "map_of md ''sender_type'' = None
           \<or> (\<exists>v. map_of md ''sender_type'' = Some v \<and> SenderType_of v = None)"
  shows "ws_sender_type md = CUSTOMER"
  using assms by (auto simp: ws_sender_type_def dict_get_def)

lemma ws_store_message_accepts:
  assumes "dict_get md ''conversation_id'' JNull = JNull
           \<or> (\<exists>i. dict_get md ''conversation_id'' JNull = JInt (int i)
                  \<and> i \<in> set (map conv_id (conversations db)))"
    and "dict_get md ''content'' JNull = JNull \<or> (\<exists>s. dict_get md ''content'' JNull = JStr s)"
  shows "\<exists>db1 m. ws_store_message db md t = Inr (db1, m)
           \<and> opt_json (msg_content m) = dict_get md ''content'' JNull
           \<and> id_json (msg_conversation_id m) = dict_get md ''conversation_id'' JNull"
proof -
  from assms(1) obtain c where
    c: "ws_conversation_id db (dict_get md ''conversation_id'' JNull) = Inr c"
       "id_json c = dict_get md ''conversation_id'' JNull"
    by (auto simp: ws_conversation_id_def id_json_def)
  from assms(2) obtain s where
    s: "as_text (dict_get md ''content'' JNull) = Inr s"
       "opt_json s = dict_get md ''content'' JNull"
    by (auto simp: opt_json_def)
  from insert_message_no_id obtain db0 m where
    im: "insert_message db c s None None (ws_sender_type md) None t = Inr (db0, m)"
    by blast
  from c(1) s(1) im have "ws_store_message db md t = Inr (touch_conversation db0 c t, m)"
    by (simp add: ws_store_message_def py_bind_def)
  with insert_messageD(5,8) [OF im] c(2) s(2) show ?thesis by auto
qed

lemma websocket_receive_stored:
  assumes "ws_store_message db md (now e) = Inr (db1, m)"
  shows "\<exists>rest. messages (store (websocket_receive manager e db client_id (Some (JObj md))))
           = messages db @ m # rest"
proof -
  from assms have "store (websocket_receive manager e db client_id (Some (JObj md))) = db1
      \<or> (\<exists>sent. store (websocket_receive manager e db client_id (Some (JObj md)))
            = store (ws_greet manager e db1 sent client_id m))"
    by (auto simp: websocket_receive_def broadcast_eq)
  then show ?thesis
  proof (elim disjE exE)
    assume "store (websocket_receive manager e db client_id (Some (JObj md))) = db1"
    with ws_store_messageD(1) [OF assms] show ?thesis by simp
  next
    fix sent
    assume s: "store (websocket_receive manager e db client_id (Some (JObj md)))
        = store (ws_greet manager e db1 sent client_id m)"
    from ws_greet_adds [of db1 m manager e sent client_id] s ws_store_messageD(1) [OF assms]
    show ?thesis by (auto simp: adds_greeting_def)
  qed
qed

text \<open>The pipeline is its two halves, run without a pause.\<close>

lemma zapi_pipeline_split:
  "zapi_pipeline manager e db n =
     (case zapi_pipeline_until_greeting manager e db n of
        Inl finished \<Rightarrow> finished
      | Inr (db', pending) \<Rightarrow> zapi_pipeline_resume manager e db' pending)"
proof (cases "\<exists>p db1 cu cv m. zapi_dedup db (dict_get n ''whatsapp_id'' JNull) = Inr False
      \<and> zapi_phone n = Inr (JStr p) \<and> p \<noteq> []
      \<and> zapi_store_message db n p (truthy (dict_get n ''from_me'' (JBool False))) (now e)
          = Inr (db1, cu, cv, m)")
  case False
  then show ?thesis
    by (auto simp: zapi_pipeline_def zapi_pipeline_until_greeting_def Let_def
        split: sum.splits bool.splits json.splits)
next
  case True
  then obtain p db1 cu cv m where
    "zapi_dedup db (dict_get n ''whatsapp_id'' JNull) = Inr False"
    "zapi_phone n = Inr (JStr p)" "p \<noteq> []"
    "zapi_store_message db n p (truthy (dict_get n ''from_me'' (JBool False))) (now e)
       = Inr (db1, cu, cv, m)"
    by blast
  then show ?thesis
    by (simp add: zapi_pipeline_def zapi_pipeline_until_greeting_def zapi_pipeline_resume_def
        Let_def broadcast_eq)
qed

section \<open>Dedup guard\<close>

text \<open>
  C1: an event whose normalized \<^verbatim>\<open>whatsapp_id\<close> is a non-empty string that a stored
  Message already carries is answered ``already\_processed'' and leaves every table as
  it was; an identifier that is null (or empty, or otherwise false) passes the duplicate
  check.
\<close>

theorem zapi_webhook_dedup:
  assumes "method \<noteq> ''GET''"
    and "process_webhook get_whatsapp_service data = Inr (JObj n)"
    and "dict_get n ''whatsapp_id'' JNull = JStr w"
    and "w \<noteq> []"
    and "Some w \<in> set (map msg_whatsapp_id (messages db))"
  shows "zapi_webhook manager e db method (Some data) = reply db [] ''already_processed''
         \<and> (\<forall>db' v. \<not> truthy v \<longrightarrow> zapi_dedup db' v = Inr False)"
proof -
  have "n \<noteq> []" using assms(3) by (rule dict_get_nonempty)
  with assms show ?thesis
    by (simp add: zapi_webhook_def zapi_pipeline_def zapi_dedup_def)
qed

theorem zapi_webhook_dedup_witness:
  "zapi_webhook no_observers quiet_env (after_oi ''A1'') ''POST'' (Some (oi_event ''A1''))
     = reply (after_oi ''A1'') [] ''already_processed''
   \<and> zapi_dedup (after_oi ''A1'') JNull = Inr False"
proof -
  have stored: "Some ''A1'' \<in> set (map msg_whatsapp_id (messages (after_oi ''A1'')))"
    by code_simp
  have wid: "dict_get (oi_normalized ''A1'') ''whatsapp_id'' JNull = JStr ''A1''"
    by code_simp
  from zapi_webhook_dedup [OF _ oi_event_normalized wid _ stored, of "''POST''"]
  show ?thesis by simp
qed

text \<open>
  The empty identifier is not null, yet the check lets it through: the second delivery
  of such an event reaches the insert and the unique constraint raises.
\<close>

theorem zapi_webhook_dedup_empty_id:
  "dict_get (oi_normalized []) ''whatsapp_id'' JNull = JStr []
   \<and> Some [] \<in> set (map msg_whatsapp_id (messages (after_oi [])))
   \<and> response (zapi_webhook no_observers quiet_env (after_oi []) ''POST'' (Some (oi_event [])))
       = Inl IntegrityError"
  by code_simp

section \<open>Auto-reply trigger\<close>

text \<open>
  C2: over every run of the engine in which the requests are handled one at a time, the
  first-contact trigger stores at most one bot message for each conversation; a greeting
  is always stored right after a customer-role message of the same request and the same
  conversation, in which no bot message existed before; and an operator-authored
  (\<^verbatim>\<open>from_me\<close>) event never produces one, in either webhook.
\<close>

theorem first_contact_greeting_once:
  "(\<forall>c. length (filter (\<lambda>g. msg_conversation_id g = c) (run_greetings manager db rs)) \<le> 1)
   \<and> (\<forall>g \<in> set (greetings manager db r).
        \<exists>i. new_messages db (handle manager db r) = [i, g]
          \<and> msg_sender_type i = CUSTOMER \<and> msg_sender_type g = BOT
          \<and> msg_conversation_id g = msg_conversation_id i
          \<and> bot_messages db (msg_conversation_id g) = [])
   \<and> (process_webhook get_whatsapp_service data = Inr (JObj n)
        \<and> truthy (dict_get n ''from_me'' (JBool False))
      \<longrightarrow> greetings manager db (e, ZapiWebhook verb (Some data)) = []
          \<and> greetings manager db (e, EvolutionWebhook data) = [])"
  using run_greetings_once greetings_gated zapi_from_me_no_greeting evolution_from_me_no_greeting
  by blast

theorem first_contact_greeting_once_witness:
  "run_greetings no_observers empty_db oi_twice = [oi_greeting]
   \<and> length (filter (\<lambda>g. msg_conversation_id g = Some 1)
         (run_greetings no_observers empty_db oi_twice)) \<le> 1
   \<and> oi_greeting \<in> set (greetings no_observers empty_db (hd oi_twice))
   \<and> (\<exists>i. new_messages empty_db (handle no_observers empty_db (hd oi_twice)) = [i, oi_greeting]
          \<and> msg_sender_type i = CUSTOMER \<and> msg_sender_type oi_greeting = BOT
          \<and> msg_conversation_id oi_greeting = msg_conversation_id i
          \<and> bot_messages empty_db (msg_conversation_id oi_greeting) = [])
   \<and> process_webhook get_whatsapp_service operator_event = Inr (JObj operator_normalized)
   \<and> truthy (dict_get operator_normalized ''from_me'' (JBool False))
   \<and> greetings no_observers empty_db (quiet_env, ZapiWebhook ''POST'' (Some operator_event)) = []
   \<and> greetings no_observers empty_db (quiet_env, EvolutionWebhook operator_event) = []"
proof -
  have run: "run_greetings no_observers empty_db oi_twice = [oi_greeting]"
    by code_simp
  have mem: "oi_greeting \<in> set (greetings no_observers empty_db (hd oi_twice))"
    by code_simp
  have op: "process_webhook get_whatsapp_service operator_event = Inr (JObj operator_normalized)"
    by (rule operator_event_normalized)
  have fm: "truthy (dict_get operator_normalized ''from_me'' (JBool False))"
    by code_simp
  note t = first_contact_greeting_once [of no_observers empty_db oi_twice "hd oi_twice"
      operator_event operator_normalized quiet_env "''POST''"]
  from t run mem op fm show ?thesis by blast
qed

text \<open>
  Two customer messages of one conversation whose requests overlap: the second is
  stored, and finds the gate open, while the first waits for the reply generator. Both
  greet, and the conversation has two bot messages.
\<close>

theorem overlapping_requests_greet_twice:
  "process_webhook get_whatsapp_service (oi_event ''A1'') = Inr (JObj (oi_normalized ''A1''))
   \<and> process_webhook get_whatsapp_service (oi_event ''A2'') = Inr (JObj (oi_normalized ''A2''))
   \<and> map msg_sender_type
        (messages (zapi_overlapping no_observers quiet_env overlap_env empty_db
           (oi_normalized ''A1'') (oi_normalized ''A2'')))
       = [CUSTOMER, CUSTOMER, BOT, BOT]
   \<and> map msg_conversation_id
        (messages (zapi_overlapping no_observers quiet_env overlap_env empty_db
           (oi_normalized ''A1'') (oi_normalized ''A2'')))
       = [Some 1, Some 1, Some 1, Some 1]
   \<and> length
        (bot_messages (zapi_overlapping no_observers quiet_env overlap_env empty_db
           (oi_normalized ''A1'') (oi_normalized ''A2'')) (Some 1))
       = 2"
  by code_simp

section \<open>Broadcast hub\<close>

text \<open>
  C3: \<^verbatim>\<open>broadcast\<close> sends the event to the registered connections in registration
  order up to, and not including, the first one whose \<^verbatim>\<open>send_text\<close> raises; the
  exception leaves the loop, so no later connection is reached, and the registry is
  returned as it was, the failing connection included.
\<close>

theorem broadcast_stops_at_failure:
  "broadcast manager fails message =
     (manager,
      map (\<lambda>c. (c, message)) (takeWhile (\<lambda>c. \<not> fails c) (active_connections manager)),
      if list_ex fails (active_connections manager) then Inl WebSocketError else Inr ())"
proof -
  have "send_each fails (active_connections manager) message =
     (map (\<lambda>c. (c, message)) (takeWhile (\<lambda>c. \<not> fails c) (active_connections manager)),
      if list_ex fails (active_connections manager) then Inl WebSocketError else Inr ())"
    by (rule send_each_eq)
  then show ?thesis by (simp add: broadcast_def)
qed

text \<open>
  Three observers, the second gone: the first gets the event, the third does not, and
  the second is still registered.
\<close>

theorem broadcast_failure_cex:
  "broadcast three_observers (\<lambda>c. c = 2) oi_frame
     = (three_observers, [(1, oi_frame)], Inl WebSocketError)"
  by (simp add: broadcast_def three_observers_def)

section \<open>Failed greeting\<close>

text \<open>
  C4: while a customer message whose conversation has no bot message is handled, the
  webhook answers ``success'' whatever the collaborators do. If the reply generator
  raises or returns no text, only the customer message is stored and the conversation
  still has no bot message, so the gate is open for the next customer message. If the
  generator returns a text, the greeting is stored: with the provider's message id when
  the delivery succeeds, and with a null external identifier when the delivery fails.
\<close>

theorem failed_greeting_leaves_gate_open:
  assumes "zapi_dedup db (dict_get n ''whatsapp_id'' JNull) = Inr False"
    and "zapi_phone n = Inr (JStr p)" and "p \<noteq> []"
    and "\<not> truthy (dict_get n ''from_me'' (JBool False))"
    and "zapi_store_message db n p False (now e) = Inr (db1, customer, conversation, db_message)"
    and "bot_messages db1 (Some (conv_id conversation)) = []"
    and "\<not> list_ex (send_fails e) (active_connections manager)"
  shows "response (zapi_pipeline manager e db n) = Inr ''success''
         \<and> (no_reply (chat_response e) \<longrightarrow>
              store (zapi_pipeline manager e db n) = db1
              \<and> messages db1 = messages db @ [db_message]
              \<and> bot_messages (store (zapi_pipeline manager e db n)) (Some (conv_id conversation)) = [])
         \<and> (\<forall>answer. chat_response e = Inr (Some answer) \<and> answer \<noteq> []
                \<and> (http e = HttpRejected \<or> http e = HttpFailed) \<longrightarrow>
              (\<exists>b. messages (store (zapi_pipeline manager e db n)) = messages db1 @ [b]
                 \<and> msg_sender_type b = BOT
                 \<and> msg_conversation_id b = Some (conv_id conversation)
                 \<and> msg_content b = Some answer \<and> msg_whatsapp_id b = None))
         \<and> (\<forall>answer w. chat_response e = Inr (Some answer) \<and> answer \<noteq> []
                \<and> http e = HttpOk (JStr w)
                \<and> Some w \<notin> set (map msg_whatsapp_id (messages db1)) \<longrightarrow>
              (\<exists>b. messages (store (zapi_pipeline manager e db n)) = messages db1 @ [b]
                 \<and> msg_sender_type b = BOT
                 \<and> msg_conversation_id b = Some (conv_id conversation)
                 \<and> msg_content b = Some answer \<and> msg_whatsapp_id b = Some w))"
proof -
  note g = zapi_pipeline_greets [OF assms]
  note m = zapi_store_messageD [OF assms(5)]
  show ?thesis
  proof (intro conjI impI allI)
    show "response (zapi_pipeline manager e db n) = Inr ''success''" by (rule g(2))
  next
    assume "no_reply (chat_response e)"
    then show "store (zapi_pipeline manager e db n) = db1"
      by (simp add: g(1) zapi_greet_no_reply)
  next
    show "messages db1 = messages db @ [db_message]" by (rule m(1))
  next
    assume "no_reply (chat_response e)"
    then show "bot_messages (store (zapi_pipeline manager e db n)) (Some (conv_id conversation)) = []"
      by (simp add: g(1) zapi_greet_no_reply assms(6))
  next
    fix answer
    assume "chat_response e = Inr (Some answer) \<and> answer \<noteq> []
            \<and> (http e = HttpRejected \<or> http e = HttpFailed)"
    then show "\<exists>b. messages (store (zapi_pipeline manager e db n)) = messages db1 @ [b]
                 \<and> msg_sender_type b = BOT
                 \<and> msg_conversation_id b = Some (conv_id conversation)
                 \<and> msg_content b = Some answer \<and> msg_whatsapp_id b = None"
      using zapi_greet_undelivered [of e answer manager db1 conversation p] by (simp add: g(1))
  next
    fix answer w
    assume "chat_response e = Inr (Some answer) \<and> answer \<noteq> [] \<and> http e = HttpOk (JStr w)
            \<and> Some w \<notin> set (map msg_whatsapp_id (messages db1))"
    then show "\<exists>b. messages (store (zapi_pipeline manager e db n)) = messages db1 @ [b]
                 \<and> msg_sender_type b = BOT
                 \<and> msg_conversation_id b = Some (conv_id conversation)
                 \<and> msg_content b = Some answer \<and> msg_whatsapp_id b = Some w"
      using zapi_greet_delivered [of e answer w db1 manager conversation p] by (simp add: g(1))
  qed
qed


theorem failed_greeting_leaves_gate_open_witness:
  "store (zapi_pipeline no_observers chat_down_env empty_db (oi_normalized ''A1'')) = oi_stored
   \<and> response (zapi_pipeline no_observers chat_down_env empty_db (oi_normalized ''A1''))
       = Inr ''success''
   \<and> bot_messages oi_stored (Some 1) = []
   \<and> map msg_sender_type
        (messages (store (zapi_webhook no_observers second_env oi_stored ''POST''
           (Some (oi_event ''A2'')))))
       = [CUSTOMER, CUSTOMER, BOT]
   \<and> (\<exists>b. messages (store (zapi_pipeline no_observers provider_down_env empty_db
                 (oi_normalized ''A1''))) = messages oi_stored @ [b]
          \<and> msg_sender_type b = BOT \<and> msg_content b = Some ''Bom dia!''
          \<and> msg_whatsapp_id b = None)"
proof -
  let ?cu = "\<lparr>cust_id = 1, cust_name = Some ''Maria'', cust_phone = Some ''5511999990000'',
              cust_created_at = 100\<rparr>"
  let ?cv = "\<lparr>conv_id = 1, conv_customer_id = 1, conv_order_id = None, conv_status = ''open'',
              conv_created_at = 100, conv_updated_at = 100\<rparr>"
  let ?m = "\<lparr>msg_id = 1, msg_conversation_id = Some 1, msg_content = Some ''Oi'',
             msg_media_url = None, msg_media_type = None, msg_sender_type = CUSTOMER,
             msg_whatsapp_id = Some ''A1'', msg_timestamp = 100\<rparr>"
  have d: "zapi_dedup empty_db (dict_get (oi_normalized ''A1'') ''whatsapp_id'' JNull) = Inr False"
    by code_simp
  have ph: "zapi_phone (oi_normalized ''A1'') = Inr (JStr ''5511999990000'')"
    by code_simp
  have ne: "''5511999990000'' \<noteq> []" by simp
  have fm: "\<not> truthy (dict_get (oi_normalized ''A1'') ''from_me'' (JBool False))"
    by code_simp
  have st1: "zapi_store_message empty_db (oi_normalized ''A1'') ''5511999990000'' False
               (now chat_down_env) = Inr (oi_stored, ?cu, ?cv, ?m)"
    by code_simp
  have st2: "zapi_store_message empty_db (oi_normalized ''A1'') ''5511999990000'' False
               (now provider_down_env) = Inr (oi_stored, ?cu, ?cv, ?m)"
    by code_simp
  have gate: "bot_messages oi_stored (Some (conv_id ?cv)) = []"
    by code_simp
  have obs: "\<not> list_ex (send_fails e) (active_connections no_observers)" for e
    by (simp add: no_observers_def)
  have down: "no_reply (chat_response chat_down_env)"
    by (simp add: chat_down_env_def)
  have undelivered: "chat_response provider_down_env = Inr (Some ''Bom dia!'') \<and> ''Bom dia!'' \<noteq> []
      \<and> (http provider_down_env = HttpRejected \<or> http provider_down_env = HttpFailed)"
    by (simp add: provider_down_env_def quiet_env_def)
  have retry: "map msg_sender_type
        (messages (store (zapi_webhook no_observers second_env oi_stored ''POST''
           (Some (oi_event ''A2'')))))
       = [CUSTOMER, CUSTOMER, BOT]"
    by code_simp
  from failed_greeting_leaves_gate_open [OF d ph ne fm st1 gate obs] down
    failed_greeting_leaves_gate_open [OF d ph ne fm st2 gate obs] undelivered retry gate
  show ?thesis by (auto simp: oi_stored_def)
qed

text \<open>
  The provider is down: \<^verbatim>\<open>send_message\<close> returns \<^verbatim>\<open>None\<close>, and the greeting is
  stored all the same.
\<close>

theorem undelivered_greeting_is_stored:
  "map msg_sender_type
     (messages (store (zapi_webhook no_observers provider_down_env empty_db ''POST''
        (Some (oi_event ''A1'')))))
     = [CUSTOMER, BOT]
   \<and> map msg_whatsapp_id
       (messages (store (zapi_webhook no_observers provider_down_env empty_db ''POST''
          (Some (oi_event ''A1'')))))
     = [Some ''A1'', None]
   \<and> send_message get_whatsapp_service (http provider_down_env) ''5511999990000''
       (Some ''Bom dia!'') = JNull"
  by code_simp

section \<open>Provider adapters on malformed payloads\<close>

text \<open>
  C5: on a payload that is a JSON object, \<^verbatim>\<open>ZApiProvider.process_webhook\<close> returns a
  dictionary (the normalized event, or the empty one for ``ignore'') and does not raise,
  provided an \<^verbatim>\<open>image\<close> or \<^verbatim>\<open>document\<close> entry, when present, is an object;
  \<^verbatim>\<open>EvolutionProvider.process_webhook\<close> does so provided the \<^verbatim>\<open>data\<close>,
  \<^verbatim>\<open>key\<close>, \<^verbatim>\<open>message\<close> and \<^verbatim>\<open>extendedTextMessage\<close> entries, when present, are
  objects.
\<close>

theorem process_webhook_returns:
  "(object_if_present d ''image'' \<and> object_if_present d ''document''
      \<longrightarrow> (\<exists>r. process_webhook ZApiProvider (JObj d) = Inr (JObj r)))
   \<and> (evolution_shaped d
      \<longrightarrow> (\<exists>r. process_webhook EvolutionProvider (JObj d) = Inr (JObj r)))"
proof (intro conjI impI)
  assume "object_if_present d ''image'' \<and> object_if_present d ''document''"
  then have "\<exists>r. zapi_media d = Inr r"
    by (auto simp: zapi_media_def object_if_present_def dict_get_def has_key_def py_bind_def
        split: option.splits elim!: is_objectE)
  then show "\<exists>r. process_webhook ZApiProvider (JObj d) = Inr (JObj r)"
    by (auto simp: zapi_process_webhook_def zapi_normalized_def py_bind_def Let_def)
next
  assume "evolution_shaped d"
  then show "\<exists>r. process_webhook EvolutionProvider (JObj d) = Inr (JObj r)"
    by (auto simp: evolution_shaped_def evolution_process_webhook_def evolution_content_def
        py_bind_def object_if_present_def has_key_def
        split: json.splits option.splits elim!: is_objectE)
qed

theorem process_webhook_returns_witness:
  "(\<exists>r. process_webhook ZApiProvider (oi_event ''A1'') = Inr (JObj r))
   \<and> (\<exists>r. process_webhook EvolutionProvider (upsert_event ''5511999990000@s.whatsapp.net'')
          = Inr (JObj r))"
proof -
  have z: "object_if_present
             [(''type'', JStr ''ReceivedCallback''), (''phone'', JStr ''5511999990000''),
              (''senderName'', JStr ''Maria''), (''text'', JObj [(''message'', JStr ''Oi'')]),
              (''messageId'', JStr ''A1'')] k" if "k = ''image'' \<or> k = ''document''" for k
    using that by (auto simp: object_if_present_def)
  have v: "evolution_shaped
             [(''event'', JStr ''messages.upsert''),
              (''data'', JObj [(''key'', JObj [(''remoteJid'', JStr ''5511999990000@s.whatsapp.net'')]),
                               (''pushName'', JStr ''Maria''),
                               (''message'', JObj [(''conversation'', JStr ''Oi'')])])]"
    by (simp add: evolution_shaped_def dict_get_def object_if_present_def)
  from process_webhook_returns [THEN conjunct1, rule_format, OF conjI, OF z z]
    process_webhook_returns [THEN conjunct2, rule_format, OF v]
  show ?thesis by (simp add: oi_event_def upsert_event_def)
qed

text \<open>
  A Z-API media message whose \<^verbatim>\<open>image\<close> is the bare url, and an Evolution upsert
  whose \<^verbatim>\<open>message\<close> is null: both adapters raise.
\<close>

theorem process_webhook_raises:
  "process_webhook ZApiProvider image_url_event = Inl AttributeError
   \<and> process_webhook EvolutionProvider upsert_null_message = Inl TypeError"
  by code_simp

section \<open>Group and status events\<close>

text \<open>
  C6: a Z-API payload that is group-originated (a true \<^verbatim>\<open>isGroup\<close>, or a phone that
  contains \<^verbatim>\<open>@g.us\<close>) or whose event type is one of the status events is ignored by
  the Z-API adapter, and both webhooks, which the factory serves with that adapter,
  answer ``ignored'' and leave the tables as they were; the Evolution adapter ignores
  every event other than \<^verbatim>\<open>messages.upsert\<close>.
\<close>

theorem zapi_group_or_status_ignored:
  "(zapi_is_group d \<or> zapi_event_type d \<in> set zapi_status_events \<longrightarrow>
      process_webhook ZApiProvider (JObj d) = Inr (JObj [])
      \<and> store (zapi_webhook manager e db method (Some (JObj d))) = db
      \<and> (method \<noteq> ''GET'' \<longrightarrow>
           zapi_webhook manager e db method (Some (JObj d)) = reply db [] ''ignored'')
      \<and> evolution_webhook manager e db (JObj d) = reply db [] ''ignored'')
   \<and> (dict_get d ''event'' JNull \<noteq> JStr ''messages.upsert'' \<longrightarrow>
        process_webhook EvolutionProvider (JObj d) = Inr (JObj []))"
proof (intro conjI impI)
  assume "zapi_is_group d \<or> zapi_event_type d \<in> set zapi_status_events"
  then have ignore: "zapi_process_webhook (JObj d) = Inr (JObj [])"
    by (auto simp: zapi_process_webhook_def Let_def)
  then show "process_webhook ZApiProvider (JObj d) = Inr (JObj [])" by simp
  from ignore show "store (zapi_webhook manager e db method (Some (JObj d))) = db"
    by (simp add: zapi_webhook_def get_whatsapp_service_def)
  from ignore show "evolution_webhook manager e db (JObj d) = reply db [] ''ignored''"
    by (simp add: evolution_webhook_def get_whatsapp_service_def)
  assume "method \<noteq> ''GET''"
  with ignore show "zapi_webhook manager e db method (Some (JObj d)) = reply db [] ''ignored''"
    by (simp add: zapi_webhook_def get_whatsapp_service_def)
next
  assume "dict_get d ''event'' JNull \<noteq> JStr ''messages.upsert''"
  then show "process_webhook EvolutionProvider (JObj d) = Inr (JObj [])"
    by (simp add: evolution_process_webhook_def py_bind_def)
qed

theorem zapi_group_or_status_ignored_witness:
  "process_webhook ZApiProvider group_event = Inr (JObj [])
   \<and> zapi_webhook no_observers quiet_env empty_db ''POST'' (Some group_event)
       = reply empty_db [] ''ignored''
   \<and> evolution_webhook no_observers quiet_env empty_db group_event = reply empty_db [] ''ignored''
   \<and> process_webhook ZApiProvider group_suffix_event = Inr (JObj [])
   \<and> zapi_webhook no_observers quiet_env empty_db ''POST'' (Some group_suffix_event)
       = reply empty_db [] ''ignored''
   \<and> evolution_webhook no_observers quiet_env empty_db group_suffix_event
       = reply empty_db [] ''ignored''
   \<and> process_webhook ZApiProvider status_event = Inr (JObj [])
   \<and> zapi_webhook no_observers quiet_env (after_oi ''A1'') ''POST'' (Some status_event)
       = reply (after_oi ''A1'') [] ''ignored''
   \<and> evolution_webhook no_observers quiet_env (after_oi ''A1'') status_event
       = reply (after_oi ''A1'') [] ''ignored''
   \<and> process_webhook EvolutionProvider connection_event = Inr (JObj [])"
proof -
  let ?flag = "[(''type'', JStr ''ReceivedCallback''), (''phone'', JStr ''120363041234567890@g.us''),
     (''isGroup'', JBool True), (''text'', JObj [(''message'', JStr ''Oi'')]),
     (''messageId'', JStr ''G1'')]"
  let ?suffix = "[(''type'', JStr ''ReceivedCallback''), (''phone'', JStr ''120363041234567890@g.us''),
     (''text'', JObj [(''message'', JStr ''Oi'')]), (''messageId'', JStr ''G2'')]"
  let ?status = "[(''type'', JStr ''MessageStatus''), (''phone'', JStr ''5511999990000''),
     (''status'', JStr ''READ''), (''messageId'', JStr ''A1'')]"
  let ?connection = "[(''event'', JStr ''connection.update''),
     (''data'', JObj [(''state'', JStr ''open'')])]"
  have flag: "zapi_is_group ?flag \<or> zapi_event_type ?flag \<in> set zapi_status_events"
    by (simp add: zapi_is_group_def dict_get_def)
  have suffix: "zapi_is_group ?suffix \<or> zapi_event_type ?suffix \<in> set zapi_status_events"
    by (simp add: zapi_is_group_def dict_get_def py_str_def)
  have status: "zapi_is_group ?status \<or> zapi_event_type ?status \<in> set zapi_status_events"
    by (simp add: zapi_event_type_def zapi_status_events_def dict_get_def py_or_def)
  have connection: "dict_get ?connection ''event'' JNull \<noteq> JStr ''messages.upsert''"
    by (simp add: dict_get_def)
  have post: "''POST'' \<noteq> ''GET''" by simp
  note f = zapi_group_or_status_ignored [of ?flag no_observers quiet_env empty_db "''POST''",
      THEN conjunct1, rule_format, OF flag]
  note s = zapi_group_or_status_ignored [of ?suffix no_observers quiet_env empty_db "''POST''",
      THEN conjunct1, rule_format, OF suffix]
  note t = zapi_group_or_status_ignored [of ?status no_observers quiet_env "after_oi ''A1''"
      "''POST''", THEN conjunct1, rule_format, OF status]
  note c = zapi_group_or_status_ignored [of ?connection, THEN conjunct2, rule_format,
      OF connection]
  from f s t c post show ?thesis
    by (simp add: group_event_def group_suffix_event_def status_event_def connection_event_def)
qed

text \<open>The Evolution adapter normalizes an upsert whose remote identifier is a group.\<close>

theorem evolution_group_not_ignored:
  "process_webhook EvolutionProvider (upsert_event ''120363041234567890@g.us'')
     = Inr (JObj [(''remote_id'', JStr ''120363041234567890@g.us''),
                  (''sender_name'', JStr ''Maria''),
                  (''content'', JStr ''Oi''),
                  (''from_me'', JBool False)])"
  by code_simp

section \<open>One open conversation\<close>

text \<open>
  C7: from a state in which each customer has at most one open conversation, the Z-API
  webhook, the Evolution webhook, a websocket text and the broadcast-encarte endpoint
  lead to such a state again; the create-conversation endpoint does so when the
  conversation it creates is not open or its customer has no open conversation.
\<close>

theorem one_open_conversation_preserved:
  assumes "one_open_conversation db"
  shows "one_open_conversation (store (zapi_webhook manager e db verb body))
         \<and> one_open_conversation (store (evolution_webhook manager e db data))
         \<and> one_open_conversation (store (websocket_receive manager e db client_id text_body))
         \<and> (\<forall>db' sent_to. broadcast_encarte db content media customer_ids t = Inr (db', sent_to)
                \<longrightarrow> one_open_conversation db')
         \<and> (\<forall>db' conversation.
                create_conversation db customer_id status order_id t = Inr (db', conversation)
                \<and> (status \<noteq> ''open'' \<or> open_conversations db customer_id = [])
                \<longrightarrow> one_open_conversation db')"
proof (intro conjI allI impI)
  show "one_open_conversation (store (zapi_webhook manager e db verb body))"
    using assms by (rule zapi_webhook_one_open)
  show "one_open_conversation (store (evolution_webhook manager e db data))"
    using assms by (rule evolution_webhook_one_open)
  show "one_open_conversation (store (websocket_receive manager e db client_id text_body))"
    using assms by (rule websocket_receive_one_open)
next
  fix db' sent_to
  assume "broadcast_encarte db content media customer_ids t = Inr (db', sent_to)"
  then show "one_open_conversation db'"
    unfolding broadcast_encarte_def using assms by (rule encarte_loop_one_open)
next
  fix db' conversation
  assume "create_conversation db customer_id status order_id t = Inr (db', conversation)
          \<and> (status \<noteq> ''open'' \<or> open_conversations db customer_id = [])"
  then show "one_open_conversation db'"
    using assms create_conversation_one_open by blast
qed



theorem one_open_conversation_preserved_witness:
  "one_open_conversation oi_stored
   \<and> one_open_conversation
        (store (zapi_webhook no_observers second_env oi_stored ''POST'' (Some (oi_event ''A2''))))
   \<and> (\<exists>db' sent_to. broadcast_encarte oi_stored ''Ofertas'' None [] 300 = Inr (db', sent_to)
          \<and> one_open_conversation db')
   \<and> (\<exists>db' conversation. create_conversation oi_stored 1 ''closed'' None 300
            = Inr (db', conversation)
          \<and> one_open_conversation db')"
proof -
  have inv: "one_open_conversation oi_stored"
    unfolding one_open_conversation_def
  proof
    fix c
    show "length (open_conversations oi_stored c) \<le> 1"
      by (simp add: open_conversations_def oi_stored_def)
  qed
  obtain db1 sent_to where
    enc: "broadcast_encarte oi_stored ''Ofertas'' None [] 300 = Inr (db1, sent_to)"
    by (simp add: broadcast_encarte_def oi_stored_def encarte_conversation_def
        insert_message_def py_bind_def Let_def)
  obtain db2 conversation where
    cre: "create_conversation oi_stored 1 ''closed'' None 300 = Inr (db2, conversation)"
    by (simp add: create_conversation_def oi_stored_def Let_def)
  have closed: "''closed'' \<noteq> ''open'' \<or> open_conversations oi_stored 1 = []"
    by simp
  note t = one_open_conversation_preserved [OF inv, of no_observers second_env "''POST''"
      "Some (oi_event ''A2'')" _ _ _ "''Ofertas''" None "[]" 300 1 "''closed''" None]
  from t inv enc cre closed show ?thesis by blast
qed

text \<open>
  The create-conversation endpoint stores what it is given: a second open conversation
  for the customer of the scenario.
\<close>

theorem create_conversation_second_open:
  "one_open_conversation oi_stored
   \<and> (\<exists>db' conversation. create_conversation oi_stored 1 ''open'' None 300
            = Inr (db', conversation)
          \<and> map conv_customer_id (conversations db') = [1, 1]
          \<and> map conv_status (conversations db') = [''open'', ''open'']
          \<and> length (open_conversations db' 1) = 2
          \<and> \<not> one_open_conversation db')"
proof -
  have inv: "one_open_conversation oi_stored"
    unfolding one_open_conversation_def
  proof
    fix c
    show "length (open_conversations oi_stored c) \<le> 1"
      by (simp add: open_conversations_def oi_stored_def)
  qed
  have two: "\<exists>db' conversation. create_conversation oi_stored 1 ''open'' None 300
            = Inr (db', conversation)
          \<and> map conv_customer_id (conversations db') = [1, 1]
          \<and> map conv_status (conversations db') = [''open'', ''open'']
          \<and> length (open_conversations db' 1) = 2"
    by (simp add: create_conversation_def oi_stored_def Let_def open_conversations_def)
  then obtain db' conversation where
    c: "create_conversation oi_stored 1 ''open'' None 300 = Inr (db', conversation)"
       "map conv_customer_id (conversations db') = [1, 1]"
       "map conv_status (conversations db') = [''open'', ''open'']"
       "length (open_conversations db' 1) = 2"
    by (elim exE conjE)
  from c(4) have "\<not> length (open_conversations db' 1) \<le> 1" by simp
  then have "\<not> one_open_conversation db'"
    unfolding one_open_conversation_def by (rule contrapos_nn) (rule spec)
  with inv c show ?thesis by (intro conjI exI)
qed

section \<open>Missing phone\<close>

text \<open>
  C8: a Z-API event without a phone does not reach the ``no\_phone'' answer: the adapter
  formats the missing phone into the remote identifier \<^verbatim>\<open>None@c.us\<close>, from which the
  webhook takes the phone \<^verbatim>\<open>None\<close> and stores a customer, a conversation and two
  messages. Only the empty phone is answered ``no\_phone'', and only by the Z-API
  webhook: the Evolution webhook has no such check and stores a customer whose phone
  is empty.
\<close>

theorem missing_phone_is_persisted:
  "response (zapi_webhook no_observers quiet_env empty_db ''POST'' (Some no_phone_event))
     = Inr ''success''
   \<and> map cust_phone
        (customers (store (zapi_webhook no_observers quiet_env empty_db ''POST'' (Some no_phone_event))))
       = [Some ''None'']
   \<and> map msg_sender_type
        (messages (store (zapi_webhook no_observers quiet_env empty_db ''POST'' (Some no_phone_event))))
       = [CUSTOMER, BOT]
   \<and> zapi_webhook no_observers quiet_env empty_db ''POST'' (Some empty_phone_event)
       = reply empty_db [] ''no_phone''
   \<and> response (evolution_webhook no_observers quiet_env empty_db empty_phone_event)
       = Inr ''success''
   \<and> map cust_phone
        (customers (store (evolution_webhook no_observers quiet_env empty_db empty_phone_event)))
       = [Some []]"
  by code_simp

section \<open>Conversation timestamp\<close>

text \<open>
  C9: in the scenario the customer message is stored at 100 and the greeting at 105, in
  the same conversation, whose \<^verbatim>\<open>updated_at\<close> stays at 100. The websocket endpoint,
  greeting at 205 a customer who wrote at 200, leaves \<^verbatim>\<open>updated_at\<close> at 205.
\<close>

theorem greeting_does_not_bump:
  "map msg_sender_type (messages (after_oi ''A1'')) = [CUSTOMER, BOT]
   \<and> map msg_timestamp (messages (after_oi ''A1'')) = [100, 105]
   \<and> map msg_conversation_id (messages (after_oi ''A1'')) = [Some 1, Some 1]
   \<and> map conv_id (conversations (after_oi ''A1'')) = [1]
   \<and> map conv_updated_at (conversations (after_oi ''A1'')) = [100]
   \<and> map msg_timestamp
        (messages (store (websocket_receive no_observers second_env oi_stored 7
           (Some (JObj ws_text_plain)))))
       = [100, 200, 205]
   \<and> map conv_updated_at
        (conversations (store (websocket_receive no_observers second_env oi_stored 7
           (Some (JObj ws_text_plain)))))
       = [205]"
  by code_simp

section \<open>Websocket sender type\<close>

text \<open>
  C10: a websocket text that is a JSON object whose \<^verbatim>\<open>sender_type\<close> is absent, or
  is a value \<^verbatim>\<open>SenderType\<close> rejects, is stored as a customer message, with its
  content and conversation, whenever the row itself is acceptable (the conversation id
  is null or the id of a conversation, the content is null or a string).
\<close>

theorem websocket_sender_type_defaults:
  assumes "map_of md ''sender_type'' = None
           \<or> (\<exists>v. map_of md ''sender_type'' = Some v \<and> SenderType_of v = None)"
    and "dict_get md ''conversation_id'' JNull = JNull
           \<or> (\<exists>i. dict_get md ''conversation_id'' JNull = JInt (int i)
                  \<and> i \<in> set (map conv_id (conversations db)))"
    and "dict_get md ''content'' JNull = JNull \<or> (\<exists>s. dict_get md ''content'' JNull = JStr s)"
  shows "ws_sender_type md = CUSTOMER
         \<and> (\<exists>m rest.
               messages (store (websocket_receive manager e db client_id (Some (JObj md))))
                 = messages db @ m # rest
               \<and> msg_sender_type m = CUSTOMER
               \<and> opt_json (msg_content m) = dict_get md ''content'' JNull
               \<and> id_json (msg_conversation_id m) = dict_get md ''conversation_id'' JNull)"
proof -
  have role: "ws_sender_type md = CUSTOMER"
    using assms(1) by (rule ws_sender_type_default)
  from ws_store_message_accepts [OF assms(2,3), of "now e"] obtain db1 m where
    st: "ws_store_message db md (now e) = Inr (db1, m)" and
    fields: "opt_json (msg_content m) = dict_get md ''content'' JNull"
      "id_json (msg_conversation_id m) = dict_get md ''conversation_id'' JNull"
    by blast
  from websocket_receive_stored [OF st] obtain rest where
    "messages (store (websocket_receive manager e db client_id (Some (JObj md))))
       = messages db @ m # rest" ..
  with role fields ws_store_messageD(2) [OF st] show ?thesis by auto
qed


theorem websocket_sender_type_defaults_witness:
  "ws_sender_type ws_text_plain = CUSTOMER
   \<and> ws_sender_type ws_text_unknown = CUSTOMER
   \<and> (\<exists>m rest.
         messages (store (websocket_receive no_observers second_env oi_stored 7
                            (Some (JObj ws_text_unknown))))
           = messages oi_stored @ m # rest
         \<and> msg_sender_type m = CUSTOMER \<and> msg_content m = Some ''Ola''
         \<and> msg_conversation_id m = Some 1)
   \<and> (\<exists>m rest.
         messages (store (websocket_receive no_observers second_env oi_stored 7
                            (Some (JObj ws_text_plain))))
           = messages oi_stored @ m # rest
         \<and> msg_sender_type m = CUSTOMER \<and> msg_content m = Some ''Ola''
         \<and> msg_conversation_id m = Some 1)"
proof -
  have absent: "map_of ws_text_plain ''sender_type'' = None
      \<or> (\<exists>v. map_of ws_text_plain ''sender_type'' = Some v \<and> SenderType_of v = None)"
    by (simp add: ws_text_plain_def)
  have unknown: "map_of ws_text_unknown ''sender_type'' = None
      \<or> (\<exists>v. map_of ws_text_unknown ''sender_type'' = Some v \<and> SenderType_of v = None)"
    by (simp add: ws_text_unknown_def)
  have conv: "dict_get md ''conversation_id'' JNull = JNull
      \<or> (\<exists>i. dict_get md ''conversation_id'' JNull = JInt (int i)
             \<and> i \<in> set (map conv_id (conversations oi_stored)))"
    if "md = ws_text_plain \<or> md = ws_text_unknown" for md
  proof -
    from that have "dict_get md ''conversation_id'' JNull = JInt (int 1)
        \<and> 1 \<in> set (map conv_id (conversations oi_stored))"
      by (auto simp: ws_text_plain_def ws_text_unknown_def dict_get_def oi_stored_def)
    then show ?thesis by blast
  qed
  have content: "dict_get md ''content'' JNull = JNull
      \<or> (\<exists>s. dict_get md ''content'' JNull = JStr s)"
    if "md = ws_text_plain \<or> md = ws_text_unknown" for md
    using that by (auto simp: ws_text_plain_def ws_text_unknown_def dict_get_def)
  have c: "dict_get md ''content'' JNull = JStr ''Ola''
      \<and> dict_get md ''conversation_id'' JNull = JInt 1"
    if "md = ws_text_plain \<or> md = ws_text_unknown" for md
    using that by (auto simp: ws_text_plain_def ws_text_unknown_def dict_get_def)
  have decode: "msg_content m = Some ''Ola'' \<and> msg_conversation_id m = Some 1"
    if "opt_json (msg_content m) = JStr ''Ola''" "id_json (msg_conversation_id m) = JInt 1"
    for m :: Message
    using that by (auto simp: opt_json_def id_json_def split: option.splits)
  note p = websocket_sender_type_defaults [OF absent conv content, of no_observers second_env 7]
  note u = websocket_sender_type_defaults [OF unknown conv content, of no_observers second_env 7]
  from p u c decode show ?thesis by (auto simp del: ex_simps)
qed

end
